theory Spec2Isabelle
  imports Complex_Main "HOL-Library.Product_Lexorder"
begin

section \<open>Numeric conventions\<close>

text \<open>
  The analysis code of GEOSeis works on double-precision floats (numpy arrays and Python
  floats). The embedding idealises a finite float as a real number; samples that may be
  NaN or infinite are a separate constructor where the code tests for them.

  Python's \<^verbatim>\<open>round(x, ndigits)\<close> rounds to the nearest multiple of
  \<open>10 ^ -ndigits\<close>, and a tie goes to the even neighbour.
\<close>

definition round_half_even :: "real \<Rightarrow> int" where
  "round_half_even x =
     (let f = \<lfloor>x\<rfloor>; d = x - of_int f
      in if d < 1/2 then f
         else if 1/2 < d then f + 1
         else if even f then f else f + 1)"

definition py_round :: "real \<Rightarrow> nat \<Rightarrow> real" where
  "py_round x ndigits = of_int (round_half_even (x * 10 ^ ndigits)) / 10 ^ ndigits"

section \<open>Surface-wave velocity model (data\_manager.py)\<close>

text \<open>
  \<^verbatim>\<open>StreamlinedDataManager.calculate_surface_wave_velocities\<close>: the four empirical
  factors, each an \<^verbatim>\<open>if/elif\<close> chain of the source, then the velocities, the clamps
  and the rounded result dictionary.
\<close>

definition depth_factor :: "real \<Rightarrow> real" where
  "depth_factor depth_km =
     (if depth_km < 20 then 1.0
      else if depth_km < 35 then 0.98
      else if depth_km < 70 then 0.92
      else if depth_km < 150 then 0.80
      else if depth_km < 300 then 0.65
      else 0.50)"

definition distance_factor :: "real \<Rightarrow> real" where
  "distance_factor distance_km =
     (if distance_km < 500 then 0.92
      else if distance_km < 1000 then 0.95
      else if distance_km < 2000 then 0.98
      else if distance_km < 4000 then 1.0
      else if distance_km < 6000 then 1.02
      else if distance_km < 10000 then 1.04
      else 1.06)"

definition magnitude_factor :: "real \<Rightarrow> real" where
  "magnitude_factor magnitude =
     (if magnitude < 5.0 then 0.95
      else if magnitude < 5.5 then 0.97
      else if magnitude < 6.0 then 0.99
      else if magnitude < 6.5 then 1.0
      else if magnitude < 7.0 then 1.02
      else if magnitude < 7.5 then 1.04
      else if magnitude < 8.0 then 1.06
      else 1.08)"

datatype structure_type = Sedimentaer | Normal_skorpe | Gennemsnitlig | Krystallin | Ukendt

text \<open>
  An optional argument is \<open>None\<close> or a float; Python's truth test on it fails for
  \<open>None\<close> and for \<open>0\<close>.
\<close>

definition truthy :: "real option \<Rightarrow> bool" where
  "truthy a = (case a of None \<Rightarrow> False | Some v \<Rightarrow> v \<noteq> 0)"

definition structure_of :: "real option \<Rightarrow> real option \<Rightarrow> real \<times> real option \<times> structure_type" where
  "structure_of p_arrival_sec s_arrival_sec =
     (if truthy p_arrival_sec \<and> truthy s_arrival_sec \<and> 0 < the p_arrival_sec then
        (let estimated_vp_vs = the s_arrival_sec / the p_arrival_sec;
             vp_vs_ratio_info = Some (py_round estimated_vp_vs 2)
         in if 1.80 < estimated_vp_vs then (0.93, vp_vs_ratio_info, Sedimentaer)
            else if 1.75 < estimated_vp_vs then (0.97, vp_vs_ratio_info, Normal_skorpe)
            else if 1.70 < estimated_vp_vs then (1.0, vp_vs_ratio_info, Gennemsnitlig)
            else (1.05, vp_vs_ratio_info, Krystallin))
      else (1.0, None, Ukendt))"

definition structure_factor :: "real option \<Rightarrow> real option \<Rightarrow> real" where
  "structure_factor p_arrival_sec s_arrival_sec = fst (structure_of p_arrival_sec s_arrival_sec)"

record calculation_factors =
  cf_depth_factor :: real
  cf_distance_factor :: real
  cf_magnitude_factor :: real
  cf_structure_factor :: real
  cf_vp_vs_ratio :: "real option"
  cf_structure_type :: structure_type

record surface_wave_velocities =
  love_velocity :: real
  rayleigh_velocity :: real
  love_arrival :: real
  rayleigh_arrival :: real
  surface_arrival :: real
  factors :: calculation_factors

text \<open>
  The Rayleigh velocity before the clamp: the base velocity 3.5 km/s times the four
  factors. The source computes a Love velocity from the base 4.5 km/s too and then
  overwrites it with 1.12 times the Rayleigh velocity, so only the latter is kept here.
\<close>

definition raw_rayleigh_velocity :: "real \<Rightarrow> real \<Rightarrow> real \<Rightarrow> real option \<Rightarrow> real option \<Rightarrow> real" where
  "raw_rayleigh_velocity distance_km depth_km magnitude p_arrival_sec s_arrival_sec =
     3.5 * depth_factor depth_km * distance_factor distance_km * magnitude_factor magnitude
         * structure_factor p_arrival_sec s_arrival_sec"

definition calculate_surface_wave_velocities ::
  "real \<Rightarrow> real \<Rightarrow> real \<Rightarrow> real option \<Rightarrow> real option \<Rightarrow> surface_wave_velocities" where
  "calculate_surface_wave_velocities distance_km depth_km magnitude p_arrival_sec s_arrival_sec =
     (let rayleigh0 = raw_rayleigh_velocity distance_km depth_km magnitude p_arrival_sec s_arrival_sec;
          love0 = rayleigh0 * 1.12;
          love = max 3.8 (min 5.2 love0);
          rayleigh = max 3.0 (min 4.5 rayleigh0);
          love_arr = distance_km / love;
          rayleigh_arr = distance_km / rayleigh;
          (sf, vp_vs, st) = structure_of p_arrival_sec s_arrival_sec
      in \<lparr> love_velocity = py_round love 2,
           rayleigh_velocity = py_round rayleigh 2,
           love_arrival = py_round love_arr 1,
           rayleigh_arrival = py_round rayleigh_arr 1,
           surface_arrival = py_round rayleigh_arr 1,
           factors = \<lparr> cf_depth_factor = py_round (depth_factor depth_km) 3,
                       cf_distance_factor = py_round (distance_factor distance_km) 3,
                       cf_magnitude_factor = py_round (magnitude_factor magnitude) 3,
                       cf_structure_factor = py_round sf 3,
                       cf_vp_vs_ratio = vp_vs,
                       cf_structure_type = st \<rparr> \<rparr>)"

section \<open>Wave-type detection (seismic\_processor.py)\<close>

text \<open>
  \<^verbatim>\<open>EnhancedSeismicProcessor.detect_wave_types\<close> reads the displacement components
  from the waveform dictionary. The arrays come from the waveform download: 64-bit floats
  (millimetres) when the instrument response was removed, and the trace's raw integer
  counts when it was not. numpy computes \<^verbatim>\<open>north**2\<close> in the array's own type, so
  the squares of an integer array wrap_int around at the width of its type.
\<close>

datatype int_dtype = Int32 | Int64

fun dtype_bits :: "int_dtype \<Rightarrow> nat" where
  "dtype_bits Int32 = 32"
| "dtype_bits Int64 = 64"

text \<open>The value of a two's complement integer of the given width, from any integer.\<close>

definition wrap_int :: "nat \<Rightarrow> int \<Rightarrow> int" where
  "wrap_int w x = (x + 2 ^ (w - 1)) mod 2 ^ w - 2 ^ (w - 1)"

datatype ndarray = Float_array "real list" | Int_array int_dtype "int list"

fun array_length :: "ndarray \<Rightarrow> nat" where
  "array_length (Float_array xs) = length xs"
| "array_length (Int_array dt xs) = length xs"

text \<open>
  The dictionary is modelled by the keys the function looks at:
  \<^verbatim>\<open>displacement_data\<close> (an association list from component name to array,
  \<open>None\<close> when the key is absent), whether \<^verbatim>\<open>time\<close> is present, and
  \<^verbatim>\<open>sampling_rate\<close> (default 100).
\<close>

record waveform_data =
  displacement_data :: "(string \<times> ndarray) list option"
  has_time :: bool
  wd_sampling_rate :: "real option"

text \<open>Python's \<^verbatim>\<open>int(x)\<close> on a float truncates towards zero.\<close>

definition py_int :: "real \<Rightarrow> int" where
  "py_int x = (if 0 \<le> x then \<lfloor>x\<rfloor> else \<lceil>x\<rceil>)"

text \<open>
  Python's slice \<^verbatim>\<open>xs[start:stop]\<close>: a negative bound counts from the end, and
  both bounds are cut to the length.
\<close>

definition slice_bound :: "nat \<Rightarrow> int \<Rightarrow> nat" where
  "slice_bound n i = (if i < 0 then nat (max 0 (int n + i)) else min n (nat i))"

definition py_slice :: "'a list \<Rightarrow> int \<Rightarrow> int \<Rightarrow> 'a list" where
  "py_slice xs start stop =
     (let lo = slice_bound (length xs) start; hi = slice_bound (length xs) stop
      in take (hi - lo) (drop lo xs))"

fun array_slice :: "ndarray \<Rightarrow> int \<Rightarrow> int \<Rightarrow> ndarray" where
  "array_slice (Float_array xs) start stop = Float_array (py_slice xs start stop)"
| "array_slice (Int_array dt xs) start stop = Int_array dt (py_slice xs start stop)"

text \<open>
  A missing or empty component is replaced by \<^verbatim>\<open>np.array([0])\<close>, an array of
  numpy's default integer type.
\<close>

definition component :: "(string \<times> ndarray) list \<Rightarrow> string \<Rightarrow> ndarray" where
  "component dd name =
     (let xs = (case map_of dd name of None \<Rightarrow> Float_array [] | Some ys \<Rightarrow> ys)
      in if 0 < array_length xs then xs else Int_array Int64 [0])"

text \<open>
  A numpy scalar: a 64-bit float, or a 64-bit integer. \<^verbatim>\<open>np.sum\<close> of an integer
  array accumulates in 64-bit integers; the sum of two integer scalars wraps around, and
  a float operand makes the result a float.
\<close>

datatype scalar = Float_scalar real | Int_scalar int

fun to_float :: "scalar \<Rightarrow> real" where
  "to_float (Float_scalar x) = x"
| "to_float (Int_scalar i) = of_int i"

fun add_scalar :: "scalar \<Rightarrow> scalar \<Rightarrow> scalar" where
  "add_scalar (Int_scalar a) (Int_scalar b) = Int_scalar (wrap_int 64 (a + b))"
| "add_scalar a b = Float_scalar (to_float a + to_float b)"

text \<open>\<^verbatim>\<open>np.sum(x**2)\<close>\<close>

fun energy :: "ndarray \<Rightarrow> scalar" where
  "energy (Float_array xs) = Float_scalar (sum_list (map (\<lambda>x. x\<^sup>2) xs))"
| "energy (Int_array dt xs) = Int_scalar (wrap_int 64 (sum_list (map (\<lambda>x. wrap_int (dtype_bits dt) (x * x)) xs)))"

text \<open>\<^verbatim>\<open>np.mean(x**2)\<close>, a float also for an integer array.\<close>

fun mean_square :: "ndarray \<Rightarrow> real" where
  "mean_square (Float_array xs) = sum_list (map (\<lambda>x. x\<^sup>2) xs) / real (length xs)"
| "mean_square (Int_array dt xs) =
     of_int (sum_list (map (\<lambda>x. wrap_int (dtype_bits dt) (x * x)) xs)) / real (length xs)"

text \<open>The square root of a negative number is NaN, written \<open>None\<close>.\<close>

definition np_sqrt :: "real \<Rightarrow> real option" where
  "np_sqrt x = (if x < 0 then None else Some (sqrt x))"

definition rms :: "ndarray \<Rightarrow> real option" where
  "rms xs = (if 0 < array_length xs then np_sqrt (mean_square xs) else Some 0)"

definition horizontal_rms :: "real option \<Rightarrow> real option \<Rightarrow> real option" where
  "horizontal_rms north_rms east_rms =
     (case (north_rms, east_rms) of
        (Some n, Some e) \<Rightarrow> np_sqrt ((n\<^sup>2 + e\<^sup>2) / 2)
      | _ \<Rightarrow> None)"

datatype wave_type = Love | Rayleigh | Mixed

datatype wave_interpretation =
  Strong_Love_dominance | Love_dominates | Mixed_Love_and_Rayleigh
  | Mixed_with_Rayleigh_tendency | Rayleigh_dominates | Strong_Rayleigh_dominance

definition interpret_wave_type :: "real \<Rightarrow> wave_interpretation" where
  "interpret_wave_type ratio =
     (if 5.0 < ratio then Strong_Love_dominance
      else if 3.0 < ratio then Love_dominates
      else if 1.5 < ratio then Mixed_Love_and_Rayleigh
      else if 0.5 < ratio then Mixed_with_Rayleigh_tendency
      else if 0.2 < ratio then Rayleigh_dominates
      else Strong_Rayleigh_dominance)"

record component_values =
  cv_north :: real
  cv_east :: real
  cv_vertical :: real
  cv_horizontal :: real

record rms_values =
  rms_north :: "real option"
  rms_east :: "real option"
  rms_vertical :: "real option"
  rms_horizontal :: "real option"

record wave_classification =
  dominant_type :: wave_type
  confidence :: real
  love_rayleigh_ratio :: real
  horizontal_ratio :: real
  vertical_ratio :: real
  component_energy :: component_values
  rms_amplitudes :: rms_values
  interpretation_text :: wave_interpretation

datatype wave_result = No_displacement_data | Classified wave_classification

definition classify_ratio :: "real \<Rightarrow> wave_type \<times> real" where
  "classify_ratio ratio =
     (if 3.0 < ratio then (Love, min (ratio / 5.0) 1.0)
      else if ratio < 0.5 then (Rayleigh, min (2.0 / (ratio + 0.1)) 1.0)
      else (Mixed, 1.0 - \<bar>ratio - 1.5\<bar> / 1.5))"

text \<open>
  The time window, applied when a window is given and the dictionary has a
  \<^verbatim>\<open>time\<close> key: indices from the window bounds and the sampling rate, the end index
  cut to the three lengths, then one slice per component.
\<close>

definition apply_time_window ::
  "waveform_data \<Rightarrow> (real \<times> real) option \<Rightarrow> ndarray \<Rightarrow> ndarray \<Rightarrow> ndarray
     \<Rightarrow> ndarray \<times> ndarray \<times> ndarray" where
  "apply_time_window w time_window north east vertical =
     (case time_window of
        None \<Rightarrow> (north, east, vertical)
      | Some (t0, t1) \<Rightarrow>
          if has_time w then
            (let rate = (case wd_sampling_rate w of None \<Rightarrow> 100 | Some r \<Rightarrow> r);
                 start_idx = max 0 (py_int (t0 * rate));
                 end_idx = min (min (min (py_int (t1 * rate)) (int (array_length north)))
                             (int (array_length east))) (int (array_length vertical))
             in (array_slice north start_idx end_idx,
                 array_slice east start_idx end_idx,
                 array_slice vertical start_idx end_idx))
          else (north, east, vertical))"

text \<open>Energies, ratios, the decision and the rounded result dictionary.\<close>

definition classify_components :: "ndarray \<Rightarrow> ndarray \<Rightarrow> ndarray \<Rightarrow> wave_classification" where
  "classify_components north east vertical =
     (let north_energy = energy north;
          east_energy = energy east;
          vertical_energy = energy vertical;
          horizontal_energy = add_scalar north_energy east_energy;
          total_energy = add_scalar horizontal_energy vertical_energy;
          h_ratio = (if 0 < to_float total_energy
                     then to_float horizontal_energy / to_float total_energy else 0);
          v_ratio = (if 0 < to_float total_energy
                     then to_float vertical_energy / to_float total_energy else 0);
          lr_ratio = to_float horizontal_energy / (to_float vertical_energy + 1 / 10 ^ 10);
          north_rms = rms north;
          east_rms = rms east;
          vertical_rms = rms vertical
      in \<lparr> dominant_type = fst (classify_ratio lr_ratio),
           confidence = py_round (snd (classify_ratio lr_ratio)) 2,
           love_rayleigh_ratio = py_round lr_ratio 2,
           horizontal_ratio = py_round h_ratio 3,
           vertical_ratio = py_round v_ratio 3,
           component_energy =
             \<lparr> cv_north = py_round (to_float north_energy) 2,
               cv_east = py_round (to_float east_energy) 2,
               cv_vertical = py_round (to_float vertical_energy) 2,
               cv_horizontal = py_round (to_float horizontal_energy) 2 \<rparr>,
           rms_amplitudes =
             \<lparr> rms_north = map_option (\<lambda>r. py_round r 3) north_rms,
               rms_east = map_option (\<lambda>r. py_round r 3) east_rms,
               rms_vertical = map_option (\<lambda>r. py_round r 3) vertical_rms,
               rms_horizontal =
                 map_option (\<lambda>r. py_round r 3) (horizontal_rms north_rms east_rms) \<rparr>,
           interpretation_text = interpret_wave_type lr_ratio \<rparr>)"

definition detect_wave_types :: "waveform_data \<Rightarrow> (real \<times> real) option \<Rightarrow> wave_result" where
  "detect_wave_types w time_window =
     (case displacement_data w of
        None \<Rightarrow> No_displacement_data
      | Some dd \<Rightarrow>
          if dd = [] then No_displacement_data
          else (case apply_time_window w time_window
                       (component dd ''north'') (component dd ''east'') (component dd ''vertical'') of
                  (north, east, vertical) \<Rightarrow> Classified (classify_components north east vertical)))"

section \<open>Band-pass filtering (seismic\_processor.py)\<close>

text \<open>
  A sample of an input array is a finite float or one of NaN, +Inf, -Inf; the filter code
  only asks whether a sample is finite, so the three non-finite values are one
  constructor.
\<close>

datatype sample = Fin real | NonFin

fun is_finite :: "sample \<Rightarrow> bool" where
  "is_finite (Fin x) = True"
| "is_finite NonFin = False"

definition finite_values :: "sample list \<Rightarrow> real list" where
  "finite_values xs = concat (map (\<lambda>s. case s of Fin x \<Rightarrow> [x] | NonFin \<Rightarrow> []) xs)"

text \<open>
  The filter design and the zero-phase filtering are scipy's \<^verbatim>\<open>butter\<close> and
  \<^verbatim>\<open>filtfilt\<close>, which are not part of the repository. They are parameters of the
  model. \<^verbatim>\<open>butter\<close> returns the coefficients or raises; \<^verbatim>\<open>filtfilt\<close>
  returns an array, raises \<^verbatim>\<open>ValueError\<close> (the input is shorter than the padding),
  or raises something else. The source handles the three outcomes in different places.
\<close>

datatype btype = Highpass | Lowpass | Bandpass

type_synonym coefficients = "real list \<times> real list"

datatype filtfilt_outcome = Filtered "sample list" | Raises_ValueError | Raises_other

record signal_lib =
  butter :: "nat \<Rightarrow> real list \<Rightarrow> btype \<Rightarrow> coefficients option"
  filtfilt :: "coefficients \<Rightarrow> sample list \<Rightarrow> filtfilt_outcome"

datatype failure_reason =
  Empty_data | Invalid_data | Frequency_too_high | Invalid_band
  | Filter_produced_invalid | Filter_error | Unexpected_error

record filter_parameters =
  fp_low_freq :: "real option"
  fp_high_freq :: "real option"
  fp_order :: nat
  fp_sampling_rate :: real

datatype filter_status = Failure failure_reason | Success btype filter_parameters

text \<open>
  The check for NaN or Inf: with a non-finite sample present, the finite samples are
  kept if they are at least half of the array, and the call is refused otherwise.
\<close>

definition clean_data :: "sample list \<Rightarrow> sample list option" where
  "clean_data data =
     (if \<exists>s \<in> set data. \<not> is_finite s then
        (let clean = filter is_finite data
         in if real (length clean) < real (length data) * 0.5 then None else Some clean)
      else Some data)"

text \<open>
  The design step: which filter is designed for the given corner frequencies, with the
  corner frequencies reported in the status. \<open>Inl\<close> is an early failure return.
  A \<open>None\<close> high corner in the high-pass branch makes the comparison raise
  \<^verbatim>\<open>TypeError\<close>, and a zero Nyquist frequency makes the division raise; both end in the
  outer handler, as does an exception of \<^verbatim>\<open>butter\<close>.
\<close>

definition design_filter ::
  "signal_lib \<Rightarrow> real \<Rightarrow> real option \<Rightarrow> real option \<Rightarrow> nat
     \<Rightarrow> failure_reason + (coefficients \<times> btype \<times> real option \<times> real option)" where
  "design_filter lib sampling_rate low_freq high_freq order =
     (let nyquist = sampling_rate / 2.0 in
      if low_freq = None \<or> the low_freq \<le> 0 then
        (case high_freq of
           None \<Rightarrow> Inl Unexpected_error
         | Some hi \<Rightarrow>
             if nyquist * 0.95 \<le> hi then Inl Frequency_too_high
             else if nyquist = 0 then Inl Unexpected_error
             else (case butter lib order [hi / nyquist] Highpass of
                     None \<Rightarrow> Inl Unexpected_error
                   | Some ba \<Rightarrow> Inr (ba, Highpass, low_freq, high_freq)))
      else if high_freq = None \<or> nyquist \<le> the high_freq then
        (if nyquist * 0.95 \<le> the low_freq then Inl Frequency_too_high
         else (case butter lib order [the low_freq / nyquist] Lowpass of
                 None \<Rightarrow> Inl Unexpected_error
               | Some ba \<Rightarrow> Inr (ba, Lowpass, low_freq, high_freq)))
      else
        (if the high_freq \<le> the low_freq then Inl Invalid_band
         else
           (let hi = (if nyquist * 0.95 \<le> the high_freq then nyquist * 0.9 else the high_freq);
                lo = (if the low_freq \<le> 0.001 then 0.005 else the low_freq)
            in case butter lib order [lo / nyquist, hi / nyquist] Bandpass of
                 None \<Rightarrow> Inl Unexpected_error
               | Some ba \<Rightarrow> Inr (ba, Bandpass, Some lo, Some hi))))"

definition apply_bandpass_filter ::
  "signal_lib \<Rightarrow> sample list \<Rightarrow> real \<Rightarrow> real option \<Rightarrow> real option \<Rightarrow> nat option
     \<Rightarrow> sample list \<times> filter_status" where
  "apply_bandpass_filter lib data0 sampling_rate low_freq high_freq order0 =
     (let order = (case order0 of None \<Rightarrow> 4 | Some n \<Rightarrow> n) in
      if length data0 = 0 then (data0, Failure Empty_data)
      else case clean_data data0 of
        None \<Rightarrow> (data0, Failure Invalid_data)
      | Some data \<Rightarrow>
         (case design_filter lib sampling_rate low_freq high_freq order of
            Inl reason \<Rightarrow> (data, Failure reason)
          | Inr (ba, filter_type, lo, hi) \<Rightarrow>
             (case filtfilt lib ba data of
                Raises_ValueError \<Rightarrow> (data, Failure Filter_error)
              | Raises_other \<Rightarrow> (data, Failure Unexpected_error)
              | Filtered filtered_data \<Rightarrow>
                  if \<exists>s \<in> set filtered_data. \<not> is_finite s
                  then (data, Failure Filter_produced_invalid)
                  else (filtered_data,
                        Success filter_type
                          \<lparr> fp_low_freq = lo, fp_high_freq = hi, fp_order = order,
                            fp_sampling_rate = sampling_rate \<rparr>))))"

text \<open>
  An instance of the library for running the model on concrete arrays. Its design
  refuses what scipy's \<^verbatim>\<open>butter\<close> refuses (a critical frequency outside the open
  interval from 0 to 1, a band whose corners are not increasing) and otherwise returns
  coefficient lists of the length scipy returns for the order: \<open>order + 1\<close> for a
  low-pass or high-pass and \<open>2 * order + 1\<close> for a band-pass. Its filtering raises
  \<^verbatim>\<open>ValueError\<close> on an input that is not longer than the default padding
  \<open>3 * max (length a) (length b)\<close>, as scipy's \<^verbatim>\<open>filtfilt\<close> does. The
  coefficient values and the filtered samples are placeholders (ones, and the input
  itself): they stand for values that only scipy computes.
\<close>

definition design_length :: "nat \<Rightarrow> btype \<Rightarrow> nat" where
  "design_length order bt = (case bt of Bandpass \<Rightarrow> 2 * order + 1 | _ \<Rightarrow> order + 1)"

definition valid_design :: "real list \<Rightarrow> btype \<Rightarrow> bool" where
  "valid_design wn bt =
     (list_all (\<lambda>w. 0 < w \<and> w < 1) wn \<and>
      (case bt of Bandpass \<Rightarrow> length wn = 2 \<and> wn ! 0 < wn ! 1 | _ \<Rightarrow> length wn = 1))"

definition passthrough_lib :: signal_lib where
  "passthrough_lib =
     \<lparr> butter = (\<lambda>order wn bt.
          if valid_design wn bt
          then Some (replicate (design_length order bt) 1, replicate (design_length order bt) 1)
          else None),
       filtfilt = (\<lambda>(b, a) xs.
          if length xs \<le> 3 * max (length a) (length b) then Raises_ValueError
          else Filtered xs) \<rparr>"

section \<open>Surface-wave magnitude Ms (seismic\_processor.py)\<close>

text \<open>
  \<^verbatim>\<open>EnhancedSeismicProcessor.calculate_ms_magnitude\<close>. The three displacement
  components are arrays of finite samples (millimetres). The result is a magnitude with
  its explanation record, or one of the error dictionaries.
\<close>

datatype ms_error = Distance_too_short | Sampling_rate_too_low | No_amplitude | Calculation_error

datatype validation_issue =
  Distance_below_2000 real | Distance_above_16000 real | Depth_above_60 real

datatype used_component = Vertikal | Horizontal

record ms_amplitudes =
  amp_north :: real
  amp_east :: real
  amp_vertical :: real
  amp_horizontal :: real
  amp_used :: real

record ms_parameters =
  par_period :: real
  par_period_is_standard :: bool
  par_distance_km :: real
  par_distance_deg :: real
  par_sampling_rate :: real

record ms_filter =
  filter_applied :: bool
  filter_low_freq :: "real option"
  filter_high_freq :: "real option"
  filter_nyquist :: "real option"
  filter_center_freq :: "real option"

record ms_calculation =
  calc_amplitude_period_ratio :: real
  calc_log_amp_period :: real
  calc_log_distance :: real
  calc_distance_term :: real
  calc_constant :: real
  calc_raw_result :: real

record ms_depth_correction =
  dc_applied :: bool
  dc_depth_km :: "real option"
  dc_correction :: real

record ms_distance_correction =
  xc_applied :: bool
  xc_distance_km :: real
  xc_correction :: real
  xc_factor :: real

record ms_validation =
  val_issues :: "validation_issue list"
  val_requires_correction :: bool
  val_is_standard_compliant :: bool

record ms_explanation =
  ex_magnitude :: real
  ex_used_component :: used_component
  ex_amplitudes :: ms_amplitudes
  ex_parameters :: ms_parameters
  ex_filter :: ms_filter
  ex_calculation :: ms_calculation
  ex_depth_correction :: ms_depth_correction
  ex_distance_correction :: ms_distance_correction
  ex_validation :: ms_validation

text \<open>
  A successful call returns a finite magnitude, except when the reference period is not
  positive: numpy then divides by zero or takes the logarithm of a negative number, and
  the returned magnitude is an infinity or NaN (\<open>Ms_not_finite\<close>).
\<close>

datatype ms_result =
  Ms_error ms_error | Ms_not_finite | is_Ms: Ms (magnitude: real) (explanation: ms_explanation)

text \<open>
  \<^verbatim>\<open>np.max\<close> of a non-empty array. numpy raises on an empty array; every call of
  the source is behind a length test, so the first equation is never used.
\<close>

fun np_max :: "real list \<Rightarrow> real" where
  "np_max [] = 0"
| "np_max (x # xs) = fold max xs x"

text \<open>\<^verbatim>\<open>np.max(np.abs(data)) * 1000 if len(data) > 0 else 0\<close>\<close>

definition peak_um :: "real list \<Rightarrow> real" where
  "peak_um xs = (if 0 < length xs then np_max (map abs xs) * 1000 else 0)"

text \<open>
  The element-wise \<^verbatim>\<open>np.sqrt(north_data**2 + east_data**2)\<close>: numpy pairs equal
  lengths, stretches an array of length one, and raises otherwise.
\<close>

definition horizontal_amplitudes :: "real list \<Rightarrow> real list \<Rightarrow> real list option" where
  "horizontal_amplitudes north east =
     (if length north = length east
        then Some (map2 (\<lambda>n e. sqrt (n\<^sup>2 + e\<^sup>2) * 1000) north east)
      else if length north = 1
        then Some (map (\<lambda>e. sqrt ((hd north)\<^sup>2 + e\<^sup>2) * 1000) east)
      else if length east = 1
        then Some (map (\<lambda>n. sqrt (n\<^sup>2 + (hd east)\<^sup>2) * 1000) north)
      else None)"

definition validation_issues :: "real \<Rightarrow> real option \<Rightarrow> validation_issue list" where
  "validation_issues distance_km earthquake_depth_km =
     (if distance_km < 2000 then [Distance_below_2000 distance_km] else [])
     @ (if 16000 < distance_km then [Distance_above_16000 distance_km] else [])
     @ (if truthy earthquake_depth_km \<and> 60 < the earthquake_depth_km
        then [Depth_above_60 (the earthquake_depth_km)] else [])"

definition requires_correction :: "real \<Rightarrow> real option \<Rightarrow> bool" where
  "requires_correction distance_km earthquake_depth_km =
     (distance_km < 2000 \<or> (truthy earthquake_depth_km \<and> 60 < the earthquake_depth_km))"

definition depth_correction :: "real option \<Rightarrow> real" where
  "depth_correction earthquake_depth_km =
     (if truthy earthquake_depth_km \<and> 50 < the earthquake_depth_km
      then - 0.0035 * (the earthquake_depth_km - 50) else 0)"

definition distance_correction_factor :: "real \<Rightarrow> real" where
  "distance_correction_factor distance_km =
     (if distance_km < 2000 then (2000 - distance_km) / 2000 else 0)"

definition distance_correction :: "real \<Rightarrow> real" where
  "distance_correction distance_km =
     (if distance_km < 2000 then 0.3 * distance_correction_factor distance_km else 0)"

text \<open>
  The surface-wave band-pass of the magnitude: each component goes through
  \<open>apply_bandpass_filter\<close> with the corners 0.02 Hz and \<open>min 0.5 (0.9 * nyquist)\<close>,
  and the returned status is dropped (\<^verbatim>\<open>data, _ = ...\<close>).
\<close>

definition ms_filter_component :: "signal_lib \<Rightarrow> real list \<Rightarrow> real \<Rightarrow> real list" where
  "ms_filter_component lib xs sampling_rate =
     finite_values (fst (apply_bandpass_filter lib (map Fin xs) sampling_rate
        (Some 0.02) (Some (min 0.5 (sampling_rate / 2.0 * 0.9))) None))"

text \<open>
  The horizontal vector amplitude: the largest element-wise amplitude when both
  horizontal components have samples, the larger of the two peaks otherwise. \<open>None\<close>
  is numpy's exception on arrays that cannot be paired.
\<close>

definition max_horizontal_um :: "real list \<Rightarrow> real list \<Rightarrow> real option" where
  "max_horizontal_um north east =
     (if 0 < length north \<and> 0 < length east
      then map_option np_max (horizontal_amplitudes north east)
      else Some (max (peak_um north) (peak_um east)))"

text \<open>The IASPEI formula, with the distance converted to degrees.\<close>

definition ms_raw :: "real \<Rightarrow> real \<Rightarrow> real \<Rightarrow> real" where
  "ms_raw amplitude_um period distance_km =
     log 10 (amplitude_um / period) + 1.66 * log 10 (distance_km / 111.195) + 3.3"

text \<open>
  The part after the filter: amplitudes, the formula, the corrections and the
  explanation record. With a period of zero the explanation's centre frequency
  \<^verbatim>\<open>1.0/period_s\<close> raises when the filter was applied, which the outer handler
  turns into the error dictionary.
\<close>

definition ms_from_components ::
  "real list \<Rightarrow> real list \<Rightarrow> real list \<Rightarrow> real \<Rightarrow> real \<Rightarrow> real \<Rightarrow> real option \<Rightarrow> bool \<Rightarrow> ms_result" where
  "ms_from_components north east vertical distance_km sampling_rate period
       earthquake_depth_km filter_was_applied =
     (let max_vert = peak_um vertical;
          max_north = peak_um north;
          max_east = peak_um east
      in case max_horizontal_um north east of
           None \<Rightarrow> Ms_error Calculation_error
         | Some max_horizontal \<Rightarrow>
            (let amplitude_um = max max_vert max_horizontal;
                 used = (if max_horizontal \<le> max_vert then Vertikal else Horizontal)
             in if amplitude_um = 0 then Ms_error No_amplitude
                else if period = 0 \<and> filter_was_applied then Ms_error Calculation_error
                else if period \<le> 0 then Ms_not_finite
                else
                 (let distance_deg = distance_km / 111.195;
                      raw = ms_raw amplitude_um period distance_km;
                      dcorr = depth_correction earthquake_depth_km;
                      xcorr = distance_correction distance_km;
                      ms_magnitude = py_round (raw + dcorr + xcorr) 1;
                      nyquist = sampling_rate / 2.0
                  in Ms ms_magnitude
                       \<lparr> ex_magnitude = ms_magnitude,
                         ex_used_component = used,
                         ex_amplitudes =
                           \<lparr> amp_north = max_north, amp_east = max_east,
                             amp_vertical = max_vert, amp_horizontal = max_horizontal,
                             amp_used = amplitude_um \<rparr>,
                         ex_parameters =
                           \<lparr> par_period = period, par_period_is_standard = (period = 20.0),
                             par_distance_km = distance_km, par_distance_deg = distance_deg,
                             par_sampling_rate = sampling_rate \<rparr>,
                         ex_filter =
                           \<lparr> filter_applied = filter_was_applied,
                             filter_low_freq = (if filter_was_applied then Some 0.02 else None),
                             filter_high_freq =
                               (if filter_was_applied then Some (min 0.5 (nyquist * 0.9)) else None),
                             filter_nyquist = (if filter_was_applied then Some nyquist else None),
                             filter_center_freq =
                               (if filter_was_applied then Some (1.0 / period) else None) \<rparr>,
                         ex_calculation =
                           \<lparr> calc_amplitude_period_ratio = amplitude_um / period,
                             calc_log_amp_period = log 10 (amplitude_um / period),
                             calc_log_distance = log 10 distance_deg,
                             calc_distance_term = 1.66 * log 10 distance_deg,
                             calc_constant = 3.3,
                             calc_raw_result = raw \<rparr>,
                         ex_depth_correction =
                           \<lparr> dc_applied = (dcorr \<noteq> 0), dc_depth_km = earthquake_depth_km,
                             dc_correction = dcorr \<rparr>,
                         ex_distance_correction =
                           \<lparr> xc_applied = (0 < xcorr), xc_distance_km = distance_km,
                             xc_correction = xcorr,
                             xc_factor = distance_correction_factor distance_km \<rparr>,
                         ex_validation =
                           \<lparr> val_issues = validation_issues distance_km earthquake_depth_km,
                             val_requires_correction =
                               requires_correction distance_km earthquake_depth_km,
                             val_is_standard_compliant =
                               (length (validation_issues distance_km earthquake_depth_km) = 0) \<rparr> \<rparr>)))"

definition calculate_ms_magnitude ::
  "signal_lib \<Rightarrow> real list \<Rightarrow> real list \<Rightarrow> real list \<Rightarrow> real \<Rightarrow> real \<Rightarrow> real \<Rightarrow> real option \<Rightarrow> bool
     \<Rightarrow> ms_result" where
  "calculate_ms_magnitude lib north_data east_data vertical_data distance_km sampling_rate
       period earthquake_depth_km apply_filter =
     (if distance_km < 200 then Ms_error Distance_too_short
      else if apply_filter then
        (if sampling_rate / 2.0 < 0.5 then Ms_error Sampling_rate_too_low
         else ms_from_components
                (ms_filter_component lib north_data sampling_rate)
                (ms_filter_component lib east_data sampling_rate)
                (ms_filter_component lib vertical_data sampling_rate)
                distance_km sampling_rate period earthquake_depth_km True)
      else ms_from_components north_data east_data vertical_data
             distance_km sampling_rate period earthquake_depth_km False)"

text \<open>The status of the band-pass call on one component, which the magnitude code drops.\<close>

definition ms_filter_status :: "signal_lib \<Rightarrow> real list \<Rightarrow> real \<Rightarrow> filter_status" where
  "ms_filter_status lib xs sampling_rate =
     snd (apply_bandpass_filter lib (map Fin xs) sampling_rate
        (Some 0.02) (Some (min 0.5 (sampling_rate / 2.0 * 0.9))) None)"

section \<open>Spike removal (seismic\_processor.py and GEOseis.py)\<close>

text \<open>
  \<^verbatim>\<open>np.median\<close> of a non-empty array: the middle element of the sorted array, or
  the mean of the two middle elements for an even length. The callers below treat the
  empty array themselves.
\<close>

definition np_median :: "real list \<Rightarrow> real" where
  "np_median xs =
     (let s = sort xs; n = length xs
      in if odd n then s ! (n div 2) else (s ! (n div 2 - 1) + s ! (n div 2)) / 2)"

text \<open>
  \<^verbatim>\<open>scipy.signal.medfilt(x, kernel_size)\<close> for an odd kernel size: the array is
  padded with zeros on both sides, and each output sample is the median of the window
  centred on it.
\<close>

definition padded :: "real list \<Rightarrow> int \<Rightarrow> real" where
  "padded xs j = (if 0 \<le> j \<and> j < int (length xs) then xs ! nat j else 0)"

definition medfilt :: "real list \<Rightarrow> nat \<Rightarrow> real list" where
  "medfilt xs kernel_size =
     map (\<lambda>i. sort (map (\<lambda>j. padded xs (int i - int (kernel_size div 2) + int j))
                         [0..<kernel_size]) ! (kernel_size div 2))
         [0..<length xs]"

text \<open>\<^verbatim>\<open>cleaned_data[spike_indices] = median_filtered[spike_indices]\<close>\<close>

definition replace_at :: "real list \<Rightarrow> nat list \<Rightarrow> real list \<Rightarrow> real list" where
  "replace_at data spike_indices median_filtered =
     map (\<lambda>i. if i \<in> set spike_indices then median_filtered ! i else data ! i)
         [0..<length data]"

text \<open>
  \<^verbatim>\<open>EnhancedSeismicProcessor.remove_spikes\<close> of seismic\_processor.py. On an empty
  array numpy's median is NaN, the test \<^verbatim>\<open>mad > 0\<close> fails, and the copy is returned
  with the count 0.
\<close>

definition remove_spikes :: "real list \<Rightarrow> real option \<Rightarrow> real list \<times> nat" where
  "remove_spikes data threshold0 =
     (let threshold = (case threshold0 of None \<Rightarrow> 5.0 | Some t \<Rightarrow> t) in
      if data = [] then (data, 0)
      else
        (let median = np_median data;
             mad = np_median (map (\<lambda>x. \<bar>x - median\<bar>) data)
         in if 0 < mad then
              (let spike_indices =
                     filter (\<lambda>i. threshold < \<bar>data ! i - median\<bar> / (1.4826 * mad))
                            [0..<length data];
                   cleaned_data =
                     (if 0 < length spike_indices
                      then replace_at data spike_indices (medfilt data 5)
                      else data)
               in (cleaned_data, length spike_indices))
            else (data, 0)))"

text \<open>
  The method of the same name in GEOseis.py. \<^verbatim>\<open>np.std\<close> is the population
  standard deviation. When the MAD is zero the scores are computed with the standard
  deviation. An exception (an empty array makes \<^verbatim>\<open>np.max\<close> raise, an even window
  size makes \<^verbatim>\<open>medfilt\<close> raise) returns the input with zero spikes. Of the
  statistics dictionary the model keeps \<^verbatim>\<open>num_spikes\<close>.
\<close>

definition np_mean :: "real list \<Rightarrow> real" where
  "np_mean xs = sum_list xs / real (length xs)"

definition np_std :: "real list \<Rightarrow> real" where
  "np_std xs = sqrt (np_mean (map (\<lambda>x. (x - np_mean xs)\<^sup>2) xs))"

definition modified_z_scores :: "real list \<Rightarrow> real list" where
  "modified_z_scores data =
     (let median_val = np_median data;
          mad = np_median (map (\<lambda>x. \<bar>x - median_val\<bar>) data)
      in if mad = 0
         then map (\<lambda>x. \<bar>x - median_val\<bar> / (np_std data + 1 / 10 ^ 10)) data
         else map (\<lambda>x. 0.6745 * (x - median_val) / mad) data)"

definition replace_scored_spikes :: "real list \<Rightarrow> real list \<Rightarrow> real \<Rightarrow> nat \<Rightarrow> real list \<times> nat" where
  "replace_scored_spikes data z threshold window_size =
     (let spike_indices = filter (\<lambda>i. threshold < \<bar>z ! i\<bar>) [0..<length data]
      in if 0 < length spike_indices then
           (if even window_size then (data, 0)
            else (replace_at data spike_indices (medfilt data window_size),
                  length spike_indices))
         else (data, 0))"

definition GEOseis_remove_spikes :: "real list \<Rightarrow> real option \<Rightarrow> nat \<Rightarrow> real list \<times> nat" where
  "GEOseis_remove_spikes data threshold0 window_size =
     (let threshold = (case threshold0 of None \<Rightarrow> 5.0 | Some t \<Rightarrow> t) in
      if data = [] then (data, 0)
      else replace_scored_spikes data (modified_z_scores data) threshold window_size)"

section \<open>Station search and the failed-station set (data\_manager.py)\<close>

text \<open>
  The station search talks to three services outside the repository: the FDSN inventory
  query, obspy's \<^verbatim>\<open>gps2dist_azimuth\<close> and the TauP travel-time model. They are
  parameters of the model; \<open>None\<close> stands for a raised exception (and, for the TauP
  model as a whole, for a model that could not be created).
\<close>

record inventory_station =
  sta_code :: string
  sta_latitude :: real
  sta_longitude :: real
  sta_channels :: "string list"

record inventory_network =
  net_code :: string
  net_stations :: "inventory_station list"

record services =
  get_stations :: "real \<Rightarrow> inventory_network list option"
  gps2dist_azimuth :: "real \<Rightarrow> real \<Rightarrow> real \<Rightarrow> real \<Rightarrow> (real \<times> real) option"
  taup_model :: "(real \<Rightarrow> real \<Rightarrow> (string \<times> real) list option) option"

record earthquake =
  eq_latitude :: real
  eq_longitude :: real
  eq_depth :: "real option"
  eq_time :: "real option"

text \<open>
  The station dictionary (its \<^verbatim>\<open>data_source\<close> and \<^verbatim>\<open>operational_years\<close>
  entries are left out).
\<close>

record station_data =
  st_network :: string
  st_station :: string
  st_latitude :: real
  st_longitude :: real
  st_distance_deg :: real
  st_distance_km :: real
  st_azimuth :: real
  st_p_arrival :: "real option"
  st_s_arrival :: "real option"
  st_love_arrival :: real
  st_rayleigh_arrival :: real
  st_surface_arrival :: real
  st_network_priority :: nat
  st_channel_priority :: nat

text \<open>
  The keys of Streamlit's session state that the search reads or writes. A key that is
  not set is \<open>None\<close>. The execution key is the formatted string of the earthquake
  time and the three search arguments; the model keeps the four values.
\<close>

type_synonym execution_key = "real option \<times> real \<times> real \<times> int"

record session_state =
  station_results :: "(execution_key \<times> station_data list) list option"
  executing_search :: "execution_key option"
  failed_station_downloads :: "string set option"
  search_min_dist :: "real option"
  search_max_dist :: "real option"
  search_target_stations :: "int option"

definition network_scores :: "string \<Rightarrow> nat" where
  "network_scores code =
     (case map_of [(''IU'', 1), (''II'', 1), (''G'', 2), (''GE'', 2), (''GT'', 3), (''IC'', 4),
                   (''CU'', 5), (''US'', 6), (''TA'', 7), (''N4'', 8)] code of
        None \<Rightarrow> 99 | Some p \<Rightarrow> p)"

definition channel_scores :: "string \<Rightarrow> nat" where
  "channel_scores code =
     (case map_of [(''BHZ'', 1), (''BHE'', 1), (''BHN'', 1), (''HHZ'', 2), (''HHE'', 2),
                   (''HHN'', 2), (''SHZ'', 3), (''SHE'', 3), (''SHN'', 3), (''LHZ'', 4),
                   (''LHE'', 4), (''LHN'', 4)] code of
        None \<Rightarrow> 99 | Some p \<Rightarrow> p)"

text \<open>The loop over the TauP arrivals: the first P and the first S time are kept.\<close>

fun pick_arrivals :: "(string \<times> real) list \<Rightarrow> real \<times> real \<Rightarrow> real \<times> real" where
  "pick_arrivals [] ps = ps"
| "pick_arrivals ((name, time) # arrivals) (p, s) =
     pick_arrivals arrivals
       (if name = ''P'' \<and> p = 0 then (time, s)
        else if name = ''S'' \<and> s = 0 then (p, time)
        else (p, s))"

definition station_arrivals :: "services \<Rightarrow> real \<Rightarrow> real \<Rightarrow> real \<times> real" where
  "station_arrivals srv depth deg =
     (case taup_model srv of
        None \<Rightarrow> (0, 0)
      | Some travel_times \<Rightarrow>
          if 0 < deg then
            (case travel_times depth deg of
               None \<Rightarrow> (0, 0)
             | Some arrivals \<Rightarrow> pick_arrivals arrivals (0, 0))
          else (0, 0))"

text \<open>
  The body of the loop of \<^verbatim>\<open>_process_stations\<close> for one station: \<open>None\<close> when the
  station is skipped (outside the distance range, or an exception).
\<close>

definition process_station ::
  "services \<Rightarrow> real \<Rightarrow> real \<Rightarrow> real \<Rightarrow> real \<Rightarrow> real \<Rightarrow> string \<Rightarrow> inventory_station
     \<Rightarrow> station_data option" where
  "process_station srv lat lon depth min_km max_km code sta =
     (case gps2dist_azimuth srv lat lon (sta_latitude sta) (sta_longitude sta) of
        None \<Rightarrow> None
      | Some (distance_m, az) \<Rightarrow>
         (let km = distance_m / 1000.0;
              deg = km / 111.32
          in if \<not> (min_km \<le> km \<and> km \<le> max_km) then None
             else
              (let net_priority = network_scores code;
                   best_channel_priority = fold (\<lambda>c best. min best (channel_scores c))
                                             (sta_channels sta) 99;
                   (p, s) = station_arrivals srv depth deg;
                   love = km / 4.5;
                   rayleigh = km / 3.5
               in Some \<lparr> st_network = code,
                         st_station = sta_code sta,
                         st_latitude = sta_latitude sta,
                         st_longitude = sta_longitude sta,
                         st_distance_deg = py_round deg 2,
                         st_distance_km = py_round km 1,
                         st_azimuth = py_round az 1,
                         st_p_arrival = (if 0 < p then Some (py_round p 3) else None),
                         st_s_arrival = (if 0 < s then Some (py_round s 3) else None),
                         st_love_arrival = py_round love 3,
                         st_rayleigh_arrival = py_round rayleigh 3,
                         st_surface_arrival = py_round rayleigh 3,
                         st_network_priority = net_priority,
                         st_channel_priority = best_channel_priority \<rparr>)))"

definition process_stations ::
  "services \<Rightarrow> inventory_network list \<Rightarrow> real \<Rightarrow> real \<Rightarrow> real \<Rightarrow> real \<Rightarrow> real
     \<Rightarrow> station_data list" where
  "process_stations srv inventory lat lon depth min_km max_km =
     concat (map (\<lambda>net. List.map_filter
                           (process_station srv lat lon depth min_km max_km (net_code net))
                           (net_stations net))
                 inventory)"

text \<open>
  The sort key of the search: network priority, the 500 km distance bin for the networks
  of priority above 2, channel priority, distance. Tuples are compared lexicographically
  and Python's sort is stable, as \<open>sort_key\<close> is.
\<close>

definition station_sort_key :: "station_data \<Rightarrow> nat \<times> int \<times> nat \<times> real" where
  "station_sort_key x =
     (st_network_priority x,
      if st_network_priority x \<le> 2 then 0 else \<lfloor>st_distance_km x / 500\<rfloor>,
      st_channel_priority x,
      st_distance_km x)"

text \<open>
  \<^verbatim>\<open>search_stations\<close> returns the station list and the session state it leaves
  behind. The \<^verbatim>\<open>finally\<close> clause removes the execution flag that the call set.
  Every exception inside the \<^verbatim>\<open>try\<close> ends in \<^verbatim>\<open>return []\<close>.
\<close>

definition search_stations ::
  "services \<Rightarrow> session_state \<Rightarrow> earthquake \<Rightarrow> real \<Rightarrow> real \<Rightarrow> int
     \<Rightarrow> station_data list \<times> session_state" where
  "search_stations srv ss quake min_km max_km target =
     (let execution_key = (eq_time quake, min_km, max_km, target);
          cached = (case station_results ss of
                      None \<Rightarrow> None
                    | Some results \<Rightarrow> map_of results execution_key)
      in case cached of
           Some stations \<Rightarrow> (stations, ss)
         | None \<Rightarrow>
            (let results = (case station_results ss of None \<Rightarrow> [] | Some r \<Rightarrow> r);
                 ss1 = ss\<lparr> station_results := Some results \<rparr>
             in if executing_search ss1 = Some execution_key then ([], ss1)
                else
                 (let done = ss1\<lparr> executing_search := None \<rparr>
                  in case eq_time quake of
                       None \<Rightarrow> ([], done)
                     | Some t \<Rightarrow>
                        (case get_stations srv t of
                           None \<Rightarrow> ([], done)
                         | Some inventory \<Rightarrow>
                            if inventory = [] then ([], done)
                            else
                             (let depth = (case eq_depth quake of None \<Rightarrow> 10.0 | Some d \<Rightarrow> d);
                                  all_stations =
                                    process_stations srv inventory (eq_latitude quake)
                                      (eq_longitude quake) depth min_km max_km
                              in if all_stations = [] then ([], done)
                                 else
                                  (let selected =
                                         py_slice (sort_key station_sort_key all_stations) 0 target
                                   in (selected,
                                       done\<lparr> station_results :=
                                               Some ((execution_key, selected) # results) \<rparr>)))))))"

definition station_key :: "station_data \<Rightarrow> string" where
  "station_key s = st_network s @ ''.'' @ st_station s"

definition failed_set :: "session_state \<Rightarrow> string set" where
  "failed_set ss = (case failed_station_downloads ss of None \<Rightarrow> {} | Some f \<Rightarrow> f)"

definition search_stations_excluding_failed ::
  "services \<Rightarrow> session_state \<Rightarrow> earthquake \<Rightarrow> real \<Rightarrow> real \<Rightarrow> int
     \<Rightarrow> station_data list \<times> session_state" where
  "search_stations_excluding_failed srv ss quake min_km max_km target =
     (case search_stations srv ss quake min_km max_km (target * 2) of
        (all_stations, ss1) \<Rightarrow>
          if all_stations = [] then ([], ss1)
          else
            (let available_stations =
                   filter (\<lambda>s. station_key s \<notin> failed_set ss1) all_stations
             in (py_slice available_stations 0 target, ss1)))"

definition handle_failed_station_download ::
  "services \<Rightarrow> session_state \<Rightarrow> station_data \<Rightarrow> earthquake
     \<Rightarrow> station_data list \<times> session_state" where
  "handle_failed_station_download srv ss failed_station quake =
     (let ss1 = ss\<lparr> failed_station_downloads :=
                      Some (insert (station_key failed_station) (failed_set ss)) \<rparr>
      in search_stations_excluding_failed srv ss1 quake
           (case search_min_dist ss1 of None \<Rightarrow> 1500 | Some v \<Rightarrow> v)
           (case search_max_dist ss1 of None \<Rightarrow> 3000 | Some v \<Rightarrow> v)
           (case search_target_stations ss1 of None \<Rightarrow> 3 | Some v \<Rightarrow> v))"

text \<open>
  A session as a sequence of calls, each with the services as they answer at that moment.
  The run collects what the two excluding searches return; a plain search only changes
  the state. The explicit reset \<^verbatim>\<open>clear_failed_stations\<close> is not among the calls.
\<close>

datatype call =
  Handle_failed station_data earthquake
  | Search_excluding earthquake real real int
  | Search earthquake real real int

fun run :: "(services \<times> call) list \<Rightarrow> session_state \<Rightarrow> station_data list list" where
  "run [] ss = []"
| "run ((srv, Handle_failed s quake) # calls) ss =
     (case handle_failed_station_download srv ss s quake of
        (out, ss1) \<Rightarrow> out # run calls ss1)"
| "run ((srv, Search_excluding quake min_km max_km target) # calls) ss =
     (case search_stations_excluding_failed srv ss quake min_km max_km target of
        (out, ss1) \<Rightarrow> out # run calls ss1)"
| "run ((srv, Search quake min_km max_km target) # calls) ss =
     run calls (snd (search_stations srv ss quake min_km max_km target))"

text \<open>
  \<^verbatim>\<open>_fallback_station_list_optimized\<close> of data\_manager.py and its list of curated
  stations. For a station inside the distance range the dictionary is built from
  \<^verbatim>\<open>p_arrival\<close> and \<^verbatim>\<open>s_arrival\<close>, names that are bound nowhere in the method or
  the module: the \<^verbatim>\<open>NameError\<close> is caught by the bare \<^verbatim>\<open>except\<close>, and the loop
  goes on to the next station.
\<close>

definition analysis_ready_stations :: "(string \<times> string \<times> real \<times> real) list" where
  "analysis_ready_stations =
     [(''IU'', ''KEV'', 69.76, 27.01),
      (''II'', ''BFO'', 48.33, 8.33),
      (''GE'', ''STU'', 48.77, 9.19),
      (''DK'', ''BSD'', 55.11, 14.91),
      (''DK'', ''COP'', 55.68, 12.43),
      (''NS'', ''BSEG'', 62.20, 5.22),
      (''UP'', ''UDD'', 64.51, 21.04)]"

datatype loop_outcome = Appended station_data | Not_in_range | Raised

definition fallback_station ::
  "services \<Rightarrow> real \<Rightarrow> real \<Rightarrow> real \<Rightarrow> real \<Rightarrow> string \<times> string \<times> real \<times> real
     \<Rightarrow> loop_outcome" where
  "fallback_station srv lat lon min_km max_km sta_data =
     (case sta_data of (net, sta, sta_lat, sta_lon) \<Rightarrow>
        (case gps2dist_azimuth srv lat lon sta_lat sta_lon of
           None \<Rightarrow> Raised
         | Some (distance_m, az) \<Rightarrow>
             (let km = distance_m / 1000.0
              in if min_km \<le> km \<and> km \<le> max_km then Raised else Not_in_range)))"

definition fallback_station_list_optimized ::
  "services \<Rightarrow> earthquake \<Rightarrow> real \<Rightarrow> real \<Rightarrow> int \<Rightarrow> station_data list" where
  "fallback_station_list_optimized srv quake min_km max_km target =
     py_slice
       (sort_key st_distance_km
          (List.map_filter
             (\<lambda>sta_data.
                case fallback_station srv (eq_latitude quake) (eq_longitude quake)
                       min_km max_km sta_data of
                  Appended s \<Rightarrow> Some s
                | _ \<Rightarrow> None)
             analysis_ready_stations))
       0 target"

text \<open>
  Instances for running the model: a session with no key set; an event in Greece; an
  inventory with the stations II.BFO and IU.KONO; a distance function that looks up the
  great-circle distance (km) and azimuth from the event to the stations of the inventory
  and of the curated list by the station's latitude, and raises for any other station;
  no TauP model. In the second instance of the services the inventory query raises.
\<close>

definition fresh_session :: session_state where
  "fresh_session =
     \<lparr> station_results = None, executing_search = None, failed_station_downloads = None,
       search_min_dist = None, search_max_dist = None, search_target_stations = None \<rparr>"

definition example_quake :: earthquake where
  "example_quake =
     \<lparr> eq_latitude = 38.0, eq_longitude = 23.7, eq_depth = Some 10, eq_time = Some 0 \<rparr>"

definition example_inventory :: "inventory_network list" where
  "example_inventory =
     [\<lparr> net_code = ''II'',
        net_stations =
          [\<lparr> sta_code = ''BFO'', sta_latitude = 48.33, sta_longitude = 8.33,
              sta_channels = [] \<rparr>] \<rparr>,
      \<lparr> net_code = ''IU'',
        net_stations =
          [\<lparr> sta_code = ''KONO'', sta_latitude = 59.65, sta_longitude = 9.60,
              sta_channels = [] \<rparr>] \<rparr>]"

definition example_distance :: "real \<Rightarrow> real \<Rightarrow> real \<Rightarrow> real \<Rightarrow> (real \<times> real) option" where
  "example_distance lat lon sta_lat sta_lon =
     map_option (\<lambda>(km, az). (km * 1000, az))
       (map_of [(69.76, (3537, 2)), (48.33, (1689, 318)), (48.77, (1671, 320)),
                (55.11, (2014, 344)), (55.68, (2138, 340)), (62.20, (2972, 341)),
                (64.51, (2953, 357)), (59.65, (2607, 342))] sta_lat)"

definition example_services :: services where
  "example_services =
     \<lparr> get_stations = (\<lambda>t. Some example_inventory),
       gps2dist_azimuth = example_distance,
       taup_model = None \<rparr>"

definition offline_services :: services where
  "offline_services =
     \<lparr> get_stations = (\<lambda>t. None),
       gps2dist_azimuth = example_distance,
       taup_model = None \<rparr>"

text \<open>The two station dictionaries that the search builds from the example inventory.\<close>

definition station_BFO :: station_data where
  "station_BFO =
     \<lparr> st_network = ''II'', st_station = ''BFO'', st_latitude = 48.33,
       st_longitude = 8.33, st_distance_deg = 15.17, st_distance_km = 1689,
       st_azimuth = 318, st_p_arrival = None, st_s_arrival = None,
       st_love_arrival = 375.333, st_rayleigh_arrival = 482.571,
       st_surface_arrival = 482.571, st_network_priority = 1, st_channel_priority = 99 \<rparr>"

definition station_KONO :: station_data where
  "station_KONO =
     \<lparr> st_network = ''IU'', st_station = ''KONO'', st_latitude = 59.65,
       st_longitude = 9.60, st_distance_deg = 23.42, st_distance_km = 2607,
       st_azimuth = 342, st_p_arrival = None, st_s_arrival = None,
       st_love_arrival = 579.333, st_rayleigh_arrival = 744.857,
       st_surface_arrival = 744.857, st_network_priority = 1, st_channel_priority = 99 \<rparr>"

section \<open>Facts about rounding\<close>

lemma round_half_even_lower: "x - 1/2 \<le> of_int (round_half_even x)"
  unfolding round_half_even_def Let_def by (auto; linarith)

lemma round_half_even_upper: "of_int (round_half_even x) \<le> x + 1/2"
  unfolding round_half_even_def Let_def by (auto; linarith)

lemma round_half_even_of_int [simp]: "round_half_even (of_int k) = k"
  unfolding round_half_even_def Let_def by simp

lemma round_half_even_mono:
  assumes "x \<le> y"
  shows "round_half_even x \<le> round_half_even y"
proof (cases "\<lfloor>x\<rfloor> = \<lfloor>y\<rfloor>")
  case True
  then show ?thesis using assms
    unfolding round_half_even_def Let_def by (auto; linarith)
next
  case False
  then have "\<lfloor>x\<rfloor> + 1 \<le> \<lfloor>y\<rfloor>" using floor_mono[OF assms] by linarith
  moreover have "round_half_even x \<le> \<lfloor>x\<rfloor> + 1"
    unfolding round_half_even_def Let_def by auto
  moreover have "\<lfloor>y\<rfloor> \<le> round_half_even y"
    unfolding round_half_even_def Let_def by auto
  ultimately show ?thesis by linarith
qed

lemma py_round_mono: "x \<le> y \<Longrightarrow> py_round x n \<le> py_round y n"
  unfolding py_round_def
  by (intro divide_right_mono of_int_le_iff[THEN iffD2] round_half_even_mono mult_right_mono) auto

lemma py_round_lower: "x - 1 / (2 * 10 ^ n) \<le> py_round x n"
proof -
  have "x * 10 ^ n - 1/2 \<le> of_int (round_half_even (x * 10 ^ n))"
    by (rule round_half_even_lower)
  then have "(x * 10 ^ n - 1/2) / 10 ^ n \<le> py_round x n"
    unfolding py_round_def by (intro divide_right_mono) auto
  then show ?thesis by (simp add: diff_divide_distrib)
qed

lemma py_round_upper: "py_round x n \<le> x + 1 / (2 * 10 ^ n)"
proof -
  have "of_int (round_half_even (x * 10 ^ n)) \<le> x * 10 ^ n + 1/2"
    by (rule round_half_even_upper)
  then have "py_round x n \<le> (x * 10 ^ n + 1/2) / 10 ^ n"
    unfolding py_round_def by (intro divide_right_mono) auto
  then show ?thesis by (simp add: add_divide_distrib)
qed

lemma py_round_fixed: "py_round (of_int k / 10 ^ n) n = of_int k / 10 ^ n"
  unfolding py_round_def by simp

section \<open>Surface-wave velocities: bounds and the Love/Rayleigh ratio\<close>

lemma py_round_within:
  assumes "of_int a / 10 ^ n \<le> x" "x \<le> of_int b / 10 ^ n"
  shows "of_int a / 10 ^ n \<le> py_round x n \<and> py_round x n \<le> of_int b / 10 ^ n"
  using py_round_mono[OF assms(1), of n] py_round_mono[OF assms(2), of n]
  by (simp add: py_round_fixed)

lemma love_velocity_eq:
  "love_velocity (calculate_surface_wave_velocities d h m p s) =
     py_round (max 3.8 (min 5.2 (raw_rayleigh_velocity d h m p s * 1.12))) 2"
  by (simp add: calculate_surface_wave_velocities_def Let_def split: prod.splits)

lemma rayleigh_velocity_eq:
  "rayleigh_velocity (calculate_surface_wave_velocities d h m p s) =
     py_round (max 3.0 (min 4.5 (raw_rayleigh_velocity d h m p s))) 2"
  by (simp add: calculate_surface_wave_velocities_def Let_def split: prod.splits)

lemma love_velocity_bounds:
  "3.8 \<le> love_velocity (calculate_surface_wave_velocities d h m p s) \<and>
   love_velocity (calculate_surface_wave_velocities d h m p s) \<le> 5.2"
proof -
  let ?v = "max 3.8 (min 5.2 (raw_rayleigh_velocity d h m p s * 1.12))"
  have "of_int 380 / 10 ^ 2 \<le> ?v" "?v \<le> of_int 520 / 10 ^ 2" by simp_all
  from py_round_within[OF this] show ?thesis
    by (simp add: love_velocity_eq)
qed

lemma rayleigh_velocity_bounds:
  "3.0 \<le> rayleigh_velocity (calculate_surface_wave_velocities d h m p s) \<and>
   rayleigh_velocity (calculate_surface_wave_velocities d h m p s) \<le> 4.5"
proof -
  let ?v = "max 3.0 (min 4.5 (raw_rayleigh_velocity d h m p s))"
  have "of_int 300 / 10 ^ 2 \<le> ?v" "?v \<le> of_int 450 / 10 ^ 2" by simp_all
  from py_round_within[OF this] show ?thesis
    by (simp add: rayleigh_velocity_eq)
qed

lemma depth_factor_range: "0 < depth_factor h \<and> depth_factor h \<le> 1"
  by (simp add: depth_factor_def)

lemma distance_factor_range: "0 < distance_factor d \<and> distance_factor d \<le> 1.06"
  by (simp add: distance_factor_def)

lemma magnitude_factor_range: "0 < magnitude_factor m \<and> magnitude_factor m \<le> 1.08"
  by (simp add: magnitude_factor_def)

lemma structure_factor_range: "0 < structure_factor p s \<and> structure_factor p s \<le> 1.05"
  by (simp add: structure_factor_def structure_of_def Let_def)

lemma raw_rayleigh_velocity_upper: "raw_rayleigh_velocity d h m p s \<le> 4.5"
proof -
  have a: "3.5 * depth_factor h \<le> 3.5 * 1"
    using depth_factor_range[of h] by simp
  have b: "3.5 * depth_factor h * distance_factor d \<le> 3.5 * 1 * 1.06"
    using a depth_factor_range[of h] distance_factor_range[of d]
    by (intro mult_mono) auto
  have c: "3.5 * depth_factor h * distance_factor d * magnitude_factor m \<le> 3.5 * 1 * 1.06 * 1.08"
    using b depth_factor_range[of h] distance_factor_range[of d] magnitude_factor_range[of m]
    by (intro mult_mono) auto
  have "3.5 * depth_factor h * distance_factor d * magnitude_factor m * structure_factor p s
        \<le> 3.5 * 1 * 1.06 * 1.08 * 1.05"
    using c depth_factor_range[of h] distance_factor_range[of d] magnitude_factor_range[of m]
      structure_factor_range[of p s]
    by (intro mult_mono) auto
  then show ?thesis by (simp add: raw_rayleigh_velocity_def)
qed

lemma rounded_ratio_close:
  fixes a b v :: real
  assumes "v * 1.12 - 1 / (2 * 10 ^ 2) \<le> a" "a \<le> v * 1.12 + 1 / (2 * 10 ^ 2)"
    and "v - 1 / (2 * 10 ^ 2) \<le> b" "b \<le> v + 1 / (2 * 10 ^ 2)"
  shows "\<bar>a - 1.12 * b\<bar> \<le> 0.0106"
proof -
  have "a - 1.12 * b \<le> 0.0106" "- 0.0106 \<le> a - 1.12 * b"
    using assms by simp_all
  then show ?thesis by (simp only: abs_le_iff) simp
qed

text \<open>
  Claim C4, as amended. For all inputs the returned Love velocity lies in [3.8, 5.2] km/s
  and the returned Rayleigh velocity in [3.0, 4.5] km/s. The relation
  \<open>love_velocity = 1.12 * rayleigh_velocity\<close> holds for the velocities before the
  two clamps; each velocity is then clamped on its own and rounded to two decimals. So
  whenever the returned Love velocity is above its lower clamp 3.8, the returned
  velocities satisfy the relation up to the rounding, within 0.0106 km/s.
\<close>

theorem surface_wave_velocity_bounds_and_ratio:
  "(let r = calculate_surface_wave_velocities d h m p s
    in 3.8 \<le> love_velocity r \<and> love_velocity r \<le> 5.2 \<and>
       3.0 \<le> rayleigh_velocity r \<and> rayleigh_velocity r \<le> 4.5 \<and>
       (3.8 < love_velocity r \<longrightarrow>
          \<bar>love_velocity r - 1.12 * rayleigh_velocity r\<bar> \<le> 0.0106))"
proof -
  define r where "r = calculate_surface_wave_velocities d h m p s"
  let ?v = "raw_rayleigh_velocity d h m p s"
  have ratio: "\<bar>love_velocity r - 1.12 * rayleigh_velocity r\<bar> \<le> 0.0106"
    if gt: "3.8 < love_velocity r"
  proof -
    have "3.8 < ?v * 1.12"
    proof (rule ccontr)
      assume "\<not> 3.8 < ?v * 1.12"
      then have "max 3.8 (min 5.2 (?v * 1.12)) = of_int 380 / 10 ^ 2" by simp
      then have "love_velocity r = 3.8"
        unfolding r_def love_velocity_eq by (simp only: py_round_fixed) simp
      with gt show False by simp
    qed
    moreover have up: "?v \<le> 4.5" by (rule raw_rayleigh_velocity_upper)
    ultimately have "max 3.8 (min 5.2 (?v * 1.12)) = ?v * 1.12"
      and "max 3.0 (min 4.5 ?v) = ?v"
      by (simp_all add: max_def min_def)
    then have l: "love_velocity r = py_round (?v * 1.12) 2"
      and y: "rayleigh_velocity r = py_round ?v 2"
      unfolding r_def love_velocity_eq rayleigh_velocity_eq by simp_all
    from py_round_lower[of "?v * 1.12" 2] py_round_upper[of "?v * 1.12" 2]
         py_round_lower[of ?v 2] py_round_upper[of ?v 2]
    show ?thesis unfolding l y by (intro rounded_ratio_close) simp_all
  qed
  have "3.8 \<le> love_velocity r \<and> love_velocity r \<le> 5.2 \<and>
       3.0 \<le> rayleigh_velocity r \<and> rayleigh_velocity r \<le> 4.5 \<and>
       (3.8 < love_velocity r \<longrightarrow>
          \<bar>love_velocity r - 1.12 * rayleigh_velocity r\<bar> \<le> 0.0106)"
    using love_velocity_bounds[of d h m p s] rayleigh_velocity_bounds[of d h m p s] ratio
    unfolding r_def by blast
  then show ?thesis unfolding r_def Let_def .
qed

text \<open>
  Witness for C4: a shallow event of magnitude 6.2 at 3000 km, where no clamp is active.
\<close>

theorem surface_wave_velocity_bounds_and_ratio_witness:
  "3.8 < love_velocity (calculate_surface_wave_velocities 3000 10 6.2 None None) \<and>
   \<bar>love_velocity (calculate_surface_wave_velocities 3000 10 6.2 None None)
     - 1.12 * rayleigh_velocity (calculate_surface_wave_velocities 3000 10 6.2 None None)\<bar> \<le> 0.0106"
proof -
  have h: "3.8 < love_velocity (calculate_surface_wave_velocities 3000 10 6.2 None None)"
    by (simp add: love_velocity_eq raw_rayleigh_velocity_def depth_factor_def
        distance_factor_def magnitude_factor_def structure_factor_def structure_of_def
        truthy_def py_round_def round_half_even_def Let_def)
  from surface_wave_velocity_bounds_and_ratio[of 3000 10 "6.2" None None] h
  show ?thesis unfolding Let_def by blast
qed

text \<open>
  Counterexample to C4 as stated: a magnitude 4 event at 300 km depth and 100 km distance.
  The unclamped Rayleigh velocity is 1.5295 km/s, both lower clamps are active, and the
  returned pair is (3.8, 3.0), while 1.12 * 3.0 = 3.36.
\<close>

theorem surface_wave_velocity_ratio_counterexample:
  "love_velocity (calculate_surface_wave_velocities 100 300 4 None None) = 3.8 \<and>
   rayleigh_velocity (calculate_surface_wave_velocities 100 300 4 None None) = 3.0 \<and>
   love_velocity (calculate_surface_wave_velocities 100 300 4 None None)
     \<noteq> 1.12 * rayleigh_velocity (calculate_surface_wave_velocities 100 300 4 None None)"
  by (simp add: love_velocity_eq rayleigh_velocity_eq raw_rayleigh_velocity_def depth_factor_def distance_factor_def
      magnitude_factor_def structure_factor_def structure_of_def truthy_def py_round_def round_half_even_def Let_def)

section \<open>Wave-type detection: confidence of a Rayleigh classification\<close>

lemma classify_ratio_rayleigh:
  assumes "0 \<le> ratio" "fst (classify_ratio ratio) = Rayleigh"
  shows "snd (classify_ratio ratio) = 1"
proof -
  from assms(2) have lt: "ratio < 0.5" and "\<not> 3.0 < ratio"
    by (auto simp: classify_ratio_def split: if_splits)
  then have "1 \<le> 2.0 / (ratio + 0.1)" using assms(1) by (simp add: field_simps)
  then show ?thesis using lt \<open>\<not> 3.0 < ratio\<close> by (simp add: classify_ratio_def min_def)
qed

lemma py_round_one: "py_round 1 n = 1"
  using py_round_fixed[of "10 ^ n" n] by simp

lemma float_energy_nonneg: "0 \<le> sum_list (map (\<lambda>x. x\<^sup>2) (xs :: real list))"
  by (induction xs) auto

text \<open>
  On float arrays the energies are sums of squares of reals, the ratio is not negative,
  and a Rayleigh classification has the confidence 1.
\<close>

lemma float_rayleigh_confidence_is_one:
  assumes "dominant_type (classify_components (Float_array n) (Float_array e) (Float_array v))
             = Rayleigh"
  shows "confidence (classify_components (Float_array n) (Float_array e) (Float_array v)) = 1"
proof -
  let ?q = "(sum_list (map (\<lambda>x. x\<^sup>2) n) + sum_list (map (\<lambda>x. x\<^sup>2) e))
             / (sum_list (map (\<lambda>x. x\<^sup>2) v) + 1 / 10 ^ 10)"
  have "0 \<le> ?q"
    using float_energy_nonneg[of n] float_energy_nonneg[of e] float_energy_nonneg[of v]
    by simp
  moreover have "fst (classify_ratio ?q) = Rayleigh"
    using assms by (simp add: classify_components_def Let_def)
  ultimately have "snd (classify_ratio ?q) = 1" by (rule classify_ratio_rayleigh)
  then show ?thesis by (simp add: classify_components_def Let_def py_round_one)
qed

text \<open>
  The squares of an integer array wrap around. For the 64-bit counts below the north
  energy is 3037000500 * 3037000500 - 2 ^ 64, a negative number, and the vertical
  energy is 2095000000 * 2095000000.
\<close>

lemma wrapped_energies:
  "energy (Int_array Int64 [3037000500]) = Int_scalar (- 9223372036709301616)"
  "energy (Int_array Int64 [0]) = Int_scalar 0"
  "energy (Int_array Int64 [2095000000]) = Int_scalar 4389025000000000000"
  by (simp_all add: wrap_int_def)

text \<open>
  Claim C10, evaluated on the code. On three integer arrays of one sample each (raw
  counts, as the download stores them when the response removal fails) the north energy
  has wrapped to a negative number. The Love/Rayleigh ratio is about -2.10, which is
  below 0.5, so the window is classified as Rayleigh; the confidence is
  \<open>min (2.0 / (ratio + 0.1)) 1.0\<close>, about -0.999, and is returned as -1.0, not 1.0.
\<close>

theorem rayleigh_confidence_negative_on_wrapped_counts:
  "detect_wave_types
     \<lparr> displacement_data =
         Some [(''north'', Int_array Int64 [3037000500]), (''east'', Int_array Int64 [0]),
               (''vertical'', Int_array Int64 [2095000000])],
       has_time = False, wd_sampling_rate = None \<rparr> None
     = Classified (classify_components (Int_array Int64 [3037000500]) (Int_array Int64 [0])
                     (Int_array Int64 [2095000000])) \<and>
   dominant_type (classify_components (Int_array Int64 [3037000500]) (Int_array Int64 [0])
                     (Int_array Int64 [2095000000])) = Rayleigh \<and>
   confidence (classify_components (Int_array Int64 [3037000500]) (Int_array Int64 [0])
                     (Int_array Int64 [2095000000])) = - 1"
proof -
  have a: "detect_wave_types
     \<lparr> displacement_data =
         Some [(''north'', Int_array Int64 [3037000500]), (''east'', Int_array Int64 [0]),
               (''vertical'', Int_array Int64 [2095000000])],
       has_time = False, wd_sampling_rate = None \<rparr> None
     = Classified (classify_components (Int_array Int64 [3037000500]) (Int_array Int64 [0])
                     (Int_array Int64 [2095000000]))"
    by (simp add: detect_wave_types_def component_def apply_time_window_def)
  have h: "add_scalar (Int_scalar (- 9223372036709301616)) (Int_scalar 0)
             = Int_scalar (- 9223372036709301616)"
    by (simp add: wrap_int_def)
  have b: "dominant_type (classify_components (Int_array Int64 [3037000500]) (Int_array Int64 [0])
                     (Int_array Int64 [2095000000])) = Rayleigh"
    unfolding classify_components_def Let_def wrapped_energies h
    by (simp add: classify_ratio_def)
  have c: "confidence (classify_components (Int_array Int64 [3037000500]) (Int_array Int64 [0])
                     (Int_array Int64 [2095000000])) = - 1"
    unfolding classify_components_def Let_def wrapped_energies h
    by (simp add: classify_ratio_def py_round_def round_half_even_def Let_def)
  from a b c show ?thesis by blast
qed

section \<open>Band-pass filtering: length, finiteness and the Nyquist clamp\<close>

lemma clean_data_finite: "clean_data x = Some d \<Longrightarrow> \<forall>s \<in> set d. is_finite s"
  by (auto simp: clean_data_def Let_def split: if_splits)

lemma clean_data_eq:
  "clean_data x = Some d \<Longrightarrow> d = filter is_finite x"
  by (auto simp: clean_data_def Let_def split: if_splits intro: filter_True[symmetric])

lemma clean_data_accepts:
  assumes "real (length x) * 0.5 \<le> real (length (filter is_finite x))"
  shows "clean_data x = Some (filter is_finite x)"
  using assms by (auto simp: clean_data_def Let_def)

lemma clean_data_all_finite: "clean_data (map Fin xs) = Some (map Fin xs)"
  by (auto simp: clean_data_def)

lemma finite_values_map_Fin: "finite_values (map Fin xs) = xs"
  by (induction xs) (auto simp: finite_values_def)

lemma apply_bandpass_filter_cases:
  assumes "clean_data x = Some d"
  shows "apply_bandpass_filter lib x fs lo hi ord = (x, Failure Empty_data) \<and> x = []
     \<or> (\<exists>r. apply_bandpass_filter lib x fs lo hi ord = (d, Failure r))
     \<or> (\<exists>ba y t p. filtfilt lib ba d = Filtered y \<and> (\<forall>s \<in> set y. is_finite s)
           \<and> apply_bandpass_filter lib x fs lo hi ord = (y, Success t p))"
  using assms unfolding apply_bandpass_filter_def Let_def
  by (auto split: sum.splits prod.splits filtfilt_outcome.splits)

lemma apply_bandpass_filter_failure_returns_input:
  assumes "snd (apply_bandpass_filter lib (map Fin xs) fs lo hi ord) = Failure r"
  shows "fst (apply_bandpass_filter lib (map Fin xs) fs lo hi ord) = map Fin xs"
  using apply_bandpass_filter_cases[OF clean_data_all_finite, of lib xs fs lo hi ord] assms
  by auto

text \<open>
  Claim C3, as amended. For an input in which at most half of the samples are non-finite,
  the returned array contains no NaN or Inf, and its length is the number of finite
  samples of the input: the non-finite samples are dropped before filtering and are not
  put back. For an input without non-finite samples this is the length of the input.
  The length of a filtered array is that of the array given to \<^verbatim>\<open>filtfilt\<close>, which
  is assumed of the library.
\<close>

theorem bandpass_output_finite_and_length:
  assumes "real (length x) * 0.5 \<le> real (length (filter is_finite x))"
    and "\<And>ba xs ys. filtfilt lib ba xs = Filtered ys \<Longrightarrow> length ys = length xs"
  shows "length (fst (apply_bandpass_filter lib x fs lo hi ord)) = length (filter is_finite x) \<and>
         (\<forall>s \<in> set (fst (apply_bandpass_filter lib x fs lo hi ord)). is_finite s)"
proof -
  have c: "clean_data x = Some (filter is_finite x)" by (rule clean_data_accepts[OF assms(1)])
  from apply_bandpass_filter_cases[OF c, of lib fs lo hi ord] assms(2)
  show ?thesis by (elim disjE exE conjE) auto
qed

text \<open>
  Witness for C3: five samples with one NaN, filtered with the band 1 to 10 Hz at 100 Hz.
\<close>

theorem bandpass_output_finite_and_length_witness:
  "real (length [Fin 1, Fin 2, NonFin, Fin 3, Fin 4]) * 0.5
     \<le> real (length (filter is_finite [Fin 1, Fin 2, NonFin, Fin 3, Fin 4])) \<and>
   length (fst (apply_bandpass_filter passthrough_lib [Fin 1, Fin 2, NonFin, Fin 3, Fin 4]
                  100 (Some 1) (Some 10) None))
     = length (filter is_finite [Fin 1, Fin 2, NonFin, Fin 3, Fin 4]) \<and>
   list_all is_finite (fst (apply_bandpass_filter passthrough_lib [Fin 1, Fin 2, NonFin, Fin 3, Fin 4]
                  100 (Some 1) (Some 10) None))"
proof -
  have half: "real (length [Fin 1, Fin 2, NonFin, Fin 3, Fin 4]) * 0.5
     \<le> real (length (filter is_finite [Fin 1, Fin 2, NonFin, Fin 3, Fin 4]))"
    by simp
  have "length (fst (apply_bandpass_filter passthrough_lib [Fin 1, Fin 2, NonFin, Fin 3, Fin 4]
                  100 (Some 1) (Some 10) None))
          = length (filter is_finite [Fin 1, Fin 2, NonFin, Fin 3, Fin 4]) \<and>
        (\<forall>s \<in> set (fst (apply_bandpass_filter passthrough_lib [Fin 1, Fin 2, NonFin, Fin 3, Fin 4]
                  100 (Some 1) (Some 10) None)). is_finite s)"
  proof (rule bandpass_output_finite_and_length[OF half])
    fix ba :: coefficients and xs ys :: "sample list"
    assume "filtfilt passthrough_lib ba xs = Filtered ys"
    then show "length ys = length xs"
      by (cases ba) (auto simp: passthrough_lib_def split: if_splits)
  qed
  with half show ?thesis unfolding list_all_iff by blast
qed

text \<open>
  Counterexample to C3 as stated: the same five samples. One of them is NaN, which is
  at most 50 percent. The four finite samples are too few for the filter's padding, so
  the call fails with \<open>filter_error\<close> and returns the cleaned array: four samples,
  not five.
\<close>

theorem bandpass_length_counterexample:
  "apply_bandpass_filter passthrough_lib [Fin 1, Fin 2, NonFin, Fin 3, Fin 4] 100 (Some 1) (Some 10) None
     = ([Fin 1, Fin 2, Fin 3, Fin 4], Failure Filter_error) \<and>
   length (fst (apply_bandpass_filter passthrough_lib [Fin 1, Fin 2, NonFin, Fin 3, Fin 4]
                  100 (Some 1) (Some 10) None))
     \<noteq> length [Fin 1, Fin 2, NonFin, Fin 3, Fin 4]"
  by (simp add: apply_bandpass_filter_def design_filter_def clean_data_def passthrough_lib_def
      valid_design_def design_length_def Let_def)

text \<open>
  Claim C1, as amended. For a non-empty array with at most half of its samples non-finite
  and corners with \<open>0 < lo\<close> and \<open>0.95 * (fs/2) < hi < fs/2\<close>, the code designs
  the band-pass from the low corner it uses (\<open>lo\<close>, or 0.005 when \<open>lo\<close> is at most
  0.001), which is to lie below \<open>0.9 * (fs/2)\<close>, to the clamped corner
  \<open>0.9 * (fs/2)\<close>. When that design and the filtering of the cleaned
  array succeed with a finite output, the call returns the filtered array and a status
  with success, filter type band-pass and the high corner \<open>0.9 * (fs/2)\<close>. A high
  corner at or above the Nyquist frequency does not reach this branch: the code designs a
  low-pass at \<open>lo\<close> instead.
\<close>

theorem bandpass_nyquist_clamp:
  assumes "x \<noteq> []" and "clean_data x = Some d"
    and "0 < lo" and "(if lo \<le> 0.001 then 0.005 else lo) < 0.9 * (fs / 2)"
    and "0.95 * (fs / 2) < hi" and "hi < fs / 2"
    and "butter lib (case ord of None \<Rightarrow> 4 | Some k \<Rightarrow> k)
           [(if lo \<le> 0.001 then 0.005 else lo) / (fs / 2.0), (fs / 2.0 * 0.9) / (fs / 2.0)]
           Bandpass = Some ba"
    and "filtfilt lib ba d = Filtered y" and "\<forall>s \<in> set y. is_finite s"
  shows "apply_bandpass_filter lib x fs (Some lo) (Some hi) ord
           = (y, Success Bandpass
                   \<lparr> fp_low_freq = Some (if lo \<le> 0.001 then 0.005 else lo),
                     fp_high_freq = Some (0.9 * (fs / 2)),
                     fp_order = (case ord of None \<Rightarrow> 4 | Some k \<Rightarrow> k),
                     fp_sampling_rate = fs \<rparr>)"
proof -
  define k where "k = (case ord of None \<Rightarrow> 4 | Some n \<Rightarrow> (n::nat))"
  define lo' where "lo' = (if lo \<le> 0.001 then 0.005 else lo)"
  define wn where "wn = [lo' / (fs / 2.0), (fs / 2.0 * 0.9) / (fs / 2.0)]"
  have "lo \<le> (if lo \<le> 0.001 then 0.005 else lo)" by simp
  then have low: "lo < 0.9 * (fs / 2)" using assms(4) by (rule le_less_trans)
  with assms(3) have "0 < 0.9 * (fs / 2)" by (rule less_trans)
  then have "0.9 * (fs / 2) < 0.95 * (fs / 2)" by simp
  with low have "lo < 0.95 * (fs / 2)" by (rule less_trans)
  then have band: "lo < hi" using assms(5) by (rule less_trans)
  have branch: "design_filter lib fs (Some lo) (Some hi) k =
      (case butter lib k wn Bandpass of
         None \<Rightarrow> Inl Unexpected_error
       | Some ba \<Rightarrow> Inr (ba, Bandpass, Some lo', Some (fs / 2.0 * 0.9)))"
    using assms(3,5,6) band unfolding design_filter_def Let_def wn_def lo'_def
    by (simp split: option.splits)
  have b: "butter lib k wn Bandpass = Some ba"
    using assms(7) unfolding k_def wn_def lo'_def .
  have des: "design_filter lib fs (Some lo) (Some hi) k
      = Inr (ba, Bandpass, Some lo', Some (fs / 2.0 * 0.9))"
    unfolding branch b by simp
  show ?thesis
    using assms(1,2,8,9)
    unfolding apply_bandpass_filter_def Let_def k_def[symmetric] lo'_def[symmetric] des
    by simp
qed

text \<open>
  Witness for C1: thirty samples at 1 Hz with the band 0.1 to 0.48 Hz; the high corner
  is reported as 0.45 Hz.
\<close>

theorem bandpass_nyquist_clamp_witness:
  "replicate 30 (Fin 1) \<noteq> [] \<and>
   clean_data (replicate 30 (Fin 1)) = Some (replicate 30 (Fin 1)) \<and>
   (0::real) < 0.1 \<and> (if (0.1::real) \<le> 0.001 then 0.005 else (0.1::real)) < 0.9 * (1 / 2) \<and>
   0.95 * (1 / 2) < (0.48::real) \<and> (0.48::real) < 1 / 2 \<and>
   butter passthrough_lib 4 [0.1 / (1 / 2.0), (1 / 2.0 * 0.9) / (1 / 2.0)] Bandpass
     = Some (replicate 9 1, replicate 9 1) \<and>
   filtfilt passthrough_lib (replicate 9 1, replicate 9 1) (replicate 30 (Fin 1))
     = Filtered (replicate 30 (Fin 1)) \<and>
   list_all is_finite (replicate 30 (Fin 1)) \<and>
   snd (apply_bandpass_filter passthrough_lib (replicate 30 (Fin 1)) 1 (Some 0.1) (Some 0.48) None)
     = Success Bandpass \<lparr> fp_low_freq = Some 0.1, fp_high_freq = Some 0.45, fp_order = 4,
                          fp_sampling_rate = 1 \<rparr>"
proof -
  have n: "replicate 30 (Fin 1) \<noteq> []" by simp
  have c: "clean_data (replicate 30 (Fin 1)) = Some (replicate 30 (Fin 1))"
    by (simp add: clean_data_def)
  have b: "butter passthrough_lib (case None of None \<Rightarrow> 4 | Some k \<Rightarrow> k)
      [(if (0.1::real) \<le> 0.001 then 0.005 else 0.1) / (1 / 2.0), (1 / 2.0 * 0.9) / (1 / 2.0)] Bandpass
      = Some (replicate 9 1, replicate 9 1)"
    by (simp add: passthrough_lib_def valid_design_def design_length_def)
  have f: "filtfilt passthrough_lib (replicate 9 1, replicate 9 1) (replicate 30 (Fin 1))
      = Filtered (replicate 30 (Fin 1))"
    by (simp add: passthrough_lib_def)
  have fin: "\<forall>s \<in> set (replicate 30 (Fin 1)). is_finite s" by simp
  have "apply_bandpass_filter passthrough_lib (replicate 30 (Fin 1)) 1 (Some 0.1) (Some 0.48) None
          = (replicate 30 (Fin 1), Success Bandpass
               \<lparr> fp_low_freq = Some (if (0.1::real) \<le> 0.001 then 0.005 else 0.1),
                 fp_high_freq = Some (0.9 * (1 / 2)),
                 fp_order = (case None of None \<Rightarrow> 4 | Some k \<Rightarrow> k),
                 fp_sampling_rate = 1 \<rparr>)"
    by (rule bandpass_nyquist_clamp[OF n c _ _ _ _ b f fin]) simp_all
  then have "snd (apply_bandpass_filter passthrough_lib (replicate 30 (Fin 1)) 1 (Some 0.1) (Some 0.48) None)
     = Success Bandpass \<lparr> fp_low_freq = Some 0.1, fp_high_freq = Some 0.45, fp_order = 4,
                          fp_sampling_rate = 1 \<rparr>"
    by simp
  with n c b f show ?thesis by (simp add: list_all_iff)
qed

text \<open>
  Counterexample to C1 as stated: the call of scenario E6, with the sampling rate 1.0 Hz
  and the corners 0.1 and 0.6 Hz, on thirty samples. The high corner is above the Nyquist
  frequency 0.5 Hz, so the second branch designs a low-pass at 0.1 Hz: the status has
  filter type low-pass and the high corner 0.6, not band-pass and 0.45.
\<close>

theorem bandpass_nyquist_clamp_counterexample:
  "snd (apply_bandpass_filter passthrough_lib (replicate 30 (Fin 1)) 1.0 (Some 0.1) (Some 0.6) None)
     = Success Lowpass \<lparr> fp_low_freq = Some 0.1, fp_high_freq = Some 0.6, fp_order = 4,
                         fp_sampling_rate = 1.0 \<rparr>"
  by (simp add: apply_bandpass_filter_def design_filter_def clean_data_def passthrough_lib_def
      valid_design_def design_length_def Let_def)

section \<open>Surface-wave magnitude: corrections and the dropped filter status\<close>

lemma ms_filter_component_failure:
  assumes "ms_filter_status lib xs fs = Failure r"
  shows "ms_filter_component lib xs fs = xs"
  using apply_bandpass_filter_failure_returns_input[of lib xs fs "Some 0.02"
      "Some (min 0.5 (fs / 2.0 * 0.9))" None r] assms
  unfolding ms_filter_status_def ms_filter_component_def
  by (simp add: finite_values_map_Fin)

lemma explanation_from_components:
  assumes "is_Ms (ms_from_components n e v d fs T h b)"
  shows "filter_applied (ex_filter (explanation (ms_from_components n e v d fs T h b))) = b"
    and "val_issues (ex_validation (explanation (ms_from_components n e v d fs T h b)))
           = validation_issues d h"
    and "amp_vertical (ex_amplitudes (explanation (ms_from_components n e v d fs T h b))) = peak_um v"
    and "amp_north (ex_amplitudes (explanation (ms_from_components n e v d fs T h b))) = peak_um n"
    and "amp_east (ex_amplitudes (explanation (ms_from_components n e v d fs T h b))) = peak_um e"
  using assms
  by (auto simp: ms_from_components_def Let_def split: option.splits if_splits)

lemma is_Ms_from_components_iff:
  "is_Ms (ms_from_components n e v d fs T h b) \<longleftrightarrow>
     (\<exists>H. max_horizontal_um n e = Some H \<and> max (peak_um v) H \<noteq> 0 \<and> 0 < T)"
  by (auto simp: ms_from_components_def Let_def split: option.splits)

lemma magnitude_from_components:
  assumes "is_Ms (ms_from_components n e v d fs T h b)"
  shows "magnitude (ms_from_components n e v d fs T h b) =
     py_round (ms_raw (max (peak_um v) (the (max_horizontal_um n e))) T d
        + depth_correction h + distance_correction d) 1"
  using assms by (auto simp: ms_from_components_def Let_def split: option.splits if_splits)












text \<open>
  Claim C9. With \<open>apply_filter\<close> set, a failure of the band-pass on a component is not
  recorded: the explanation reports the filter as applied, the validation issues are the
  distance and depth issues only, and the amplitude of a component whose filter failed is
  the peak of the unfiltered samples. When the filter fails on all three components the
  magnitude is the one computed without the filter.
\<close>

theorem ms_ignores_filter_failure:
  assumes "is_Ms (calculate_ms_magnitude lib n e v d fs T h True)"
  shows "filter_applied (ex_filter (explanation (calculate_ms_magnitude lib n e v d fs T h True))) \<and>
     val_issues (ex_validation (explanation (calculate_ms_magnitude lib n e v d fs T h True)))
       = validation_issues d h \<and>
     ((\<exists>r. ms_filter_status lib v fs = Failure r) \<longrightarrow>
        amp_vertical (ex_amplitudes (explanation (calculate_ms_magnitude lib n e v d fs T h True)))
          = peak_um v) \<and>
     ((\<exists>r. ms_filter_status lib n fs = Failure r) \<longrightarrow>
        amp_north (ex_amplitudes (explanation (calculate_ms_magnitude lib n e v d fs T h True)))
          = peak_um n) \<and>
     ((\<exists>r. ms_filter_status lib e fs = Failure r) \<longrightarrow>
        amp_east (ex_amplitudes (explanation (calculate_ms_magnitude lib n e v d fs T h True)))
          = peak_um e) \<and>
     ((\<exists>r. ms_filter_status lib v fs = Failure r) \<and> (\<exists>r. ms_filter_status lib n fs = Failure r)
        \<and> (\<exists>r. ms_filter_status lib e fs = Failure r) \<longrightarrow>
        magnitude (calculate_ms_magnitude lib n e v d fs T h True)
          = magnitude (calculate_ms_magnitude lib n e v d fs T h False))"
proof -
  let ?n = "ms_filter_component lib n fs"
  let ?e = "ms_filter_component lib e fs"
  let ?v = "ms_filter_component lib v fs"
  from assms have eq: "calculate_ms_magnitude lib n e v d fs T h True
      = ms_from_components ?n ?e ?v d fs T h True"
    and far: "\<not> d < 200"
    by (auto simp: calculate_ms_magnitude_def split: if_splits)
  from assms have ok: "is_Ms (ms_from_components ?n ?e ?v d fs T h True)" by (simp add: eq)
  note ex = explanation_from_components[OF ok]
  have same: "magnitude (calculate_ms_magnitude lib n e v d fs T h True)
          = magnitude (calculate_ms_magnitude lib n e v d fs T h False)"
    if "?v = v" "?n = n" "?e = e"
  proof -
    from ok that have ok1: "is_Ms (ms_from_components n e v d fs T h True)" by simp
    then have ok2: "is_Ms (ms_from_components n e v d fs T h False)"
      by (simp add: is_Ms_from_components_iff)
    have "calculate_ms_magnitude lib n e v d fs T h False = ms_from_components n e v d fs T h False"
      using far by (simp add: calculate_ms_magnitude_def)
    then show ?thesis
      unfolding eq that magnitude_from_components[OF ok1]
      by (simp add: magnitude_from_components[OF ok2])
  qed
  show ?thesis
    unfolding eq using ex same[unfolded eq]
    by (auto simp: ms_filter_component_failure)
qed

lemma single_sample_filter_fails: "ms_filter_status passthrough_lib [x] 1 = Failure Filter_error"
  by (simp add: ms_filter_status_def apply_bandpass_filter_def design_filter_def
      clean_data_def passthrough_lib_def valid_design_def design_length_def Let_def)

lemma single_sample_ms_succeeds:
  "is_Ms (calculate_ms_magnitude passthrough_lib [0] [0] [1] 3000 1 20 None True)"
  by (simp add: calculate_ms_magnitude_def ms_filter_component_failure[OF single_sample_filter_fails]
      is_Ms_from_components_iff max_horizontal_um_def horizontal_amplitudes_def peak_um_def)


text \<open>
  Witness for C9: one sample per component at 1 Hz. The filtering refuses the short
  arrays, and the magnitude is returned with the filter reported as applied.
\<close>

theorem ms_ignores_filter_failure_witness:
  "is_Ms (calculate_ms_magnitude passthrough_lib [0] [0] [1] 3000 1 20 None True) \<and>
   (\<exists>r. ms_filter_status passthrough_lib [1] 1 = Failure r) \<and>
   (\<exists>r. ms_filter_status passthrough_lib [0] 1 = Failure r) \<and>
   filter_applied (ex_filter (explanation
      (calculate_ms_magnitude passthrough_lib [0] [0] [1] 3000 1 20 None True))) \<and>
   val_issues (ex_validation (explanation
      (calculate_ms_magnitude passthrough_lib [0] [0] [1] 3000 1 20 None True))) = [] \<and>
   amp_vertical (ex_amplitudes (explanation
      (calculate_ms_magnitude passthrough_lib [0] [0] [1] 3000 1 20 None True))) = 1000 \<and>
   magnitude (calculate_ms_magnitude passthrough_lib [0] [0] [1] 3000 1 20 None True)
     = magnitude (calculate_ms_magnitude passthrough_lib [0] [0] [1] 3000 1 20 None False)"
proof -
  have f1: "\<exists>r. ms_filter_status passthrough_lib [1] 1 = Failure r"
    and f0: "\<exists>r. ms_filter_status passthrough_lib [0] 1 = Failure r"
    by (simp_all add: single_sample_filter_fails)
  from ms_ignores_filter_failure[OF single_sample_ms_succeeds] f1 f0 single_sample_ms_succeeds
  show ?thesis
    by (simp add: validation_issues_def truthy_def peak_um_def)
qed

section \<open>Spike removal: repeated application and a zero MAD\<close>

lemma remove_spikes_length: "length (fst (remove_spikes x t)) = length x"
  by (simp add: remove_spikes_def replace_at_def Let_def)

lemma remove_spikes_no_spike: "snd (remove_spikes x t) = 0 \<Longrightarrow> fst (remove_spikes x t) = x"
  by (auto simp: remove_spikes_def Let_def split: if_splits)

lemma remove_spikes_zero_mad:
  assumes "x \<noteq> []" "np_median (map (\<lambda>v. \<bar>v - np_median x\<bar>) x) = 0"
  shows "remove_spikes x t = (x, 0)"
  using assms by (simp add: remove_spikes_def Let_def)

text \<open>
  Claim C6, as amended. When \<open>remove_spikes\<close> reports no spike, it returns its input
  unchanged, and applying it again to that output returns the same array and the same
  count. After a pass that replaced samples this need not hold: the median and the MAD
  are computed anew from the cleaned array.
\<close>

theorem remove_spikes_idempotent_without_spikes:
  assumes "snd (remove_spikes x t) = 0"
  shows "fst (remove_spikes x t) = x \<and>
         remove_spikes (fst (remove_spikes x t)) t = remove_spikes x t"
  using remove_spikes_no_spike[OF assms] by simp

text \<open>Witness for C6: the array 1, 2, 3 with the default threshold has no spike.\<close>

theorem remove_spikes_idempotent_without_spikes_witness:
  "snd (remove_spikes [1, 2, 3] None) = 0 \<and>
   fst (remove_spikes [1, 2, 3] None) = [1, 2, 3] \<and>
   remove_spikes (fst (remove_spikes [1, 2, 3] None)) None = remove_spikes [1, 2, 3] None"
proof -
  have h: "snd (remove_spikes [1, 2, 3] None) = 0" by code_simp
  from remove_spikes_idempotent_without_spikes[OF h] h show ?thesis by simp
qed

text \<open>
  Counterexample to C6 as stated: the array 100, 10, -1 with the default threshold 5.
  First pass: median 10, MAD 11, the score of 100 is 90 / (1.4826 * 11) > 5, and the
  sample is replaced by the median 0 of its zero-padded window. Second pass on 0, 10, -1:
  median 0, MAD 1, the score of 10 is 10 / 1.4826 > 5, and a second sample is replaced.
\<close>

theorem remove_spikes_idempotence_counterexample:
  "remove_spikes [100, 10, -1] None = ([0, 10, -1], 1) \<and>
   remove_spikes (fst (remove_spikes [100, 10, -1] None)) None = ([0, 0, -1], 1) \<and>
   remove_spikes (fst (remove_spikes [100, 10, -1] None)) None \<noteq> remove_spikes [100, 10, -1] None"
  by code_simp

text \<open>
  A constant signal with one outlier: 25 samples of 0 and one sample of 26. The median
  and the MAD are 0, the mean is 1 and the standard deviation is 5.
\<close>

lemma outlier_median: "np_median (replicate 12 0 @ [26] @ replicate 13 0) = 0"
  by code_simp

lemma outlier_mad:
  "np_median (map (\<lambda>x. \<bar>x - 0\<bar>) (replicate 12 0 @ [26] @ replicate 13 0)) = 0"
  by code_simp

lemma outlier_variance:
  "np_mean (map (\<lambda>x. (x - np_mean (replicate 12 0 @ [26] @ replicate 13 0))\<^sup>2)
       (replicate 12 0 @ [26] @ replicate 13 0)) = 5\<^sup>2"
  by code_simp

lemma outlier_std: "np_std (replicate 12 0 @ [26] @ replicate 13 0) = 5"
  unfolding np_std_def outlier_variance by simp

lemma outlier_scores:
  "modified_z_scores (replicate 12 0 @ [26] @ replicate 13 0)
     = replicate 12 0 @ [26 / (5 + 1 / 10 ^ 10)] @ replicate 13 0"
  unfolding modified_z_scores_def Let_def outlier_median outlier_mad outlier_std
  by simp

lemma outlier_replaced:
  "replace_scored_spikes (replicate 12 0 @ [26] @ replicate 13 0)
     (replicate 12 0 @ [26 / (5 + 1 / 10 ^ 10)] @ replicate 13 0) 5.0 5
   = (replicate 26 0, 1)"
  by code_simp

text \<open>
  Claim C5, evaluated on the code. On the constant signal with one outlier the MAD is 0.
  \<open>remove_spikes\<close> of seismic\_processor.py takes its \<open>else\<close> branch, returns the
  input unchanged and reports 0 spikes; the method of the same name in GEOseis.py falls
  back to the standard deviation, scores the outlier 26 / 5 > 5, replaces it and reports
  1 spike.
\<close>

theorem zero_mad_spike_not_detected:
  "np_median (map (\<lambda>x. \<bar>x - np_median (replicate 12 0 @ [26] @ replicate 13 0)\<bar>)
      (replicate 12 0 @ [26] @ replicate 13 0)) = 0 \<and>
   remove_spikes (replicate 12 0 @ [26] @ replicate 13 0) None
     = (replicate 12 0 @ [26] @ replicate 13 0, 0) \<and>
   GEOseis_remove_spikes (replicate 12 0 @ [26] @ replicate 13 0) None 5 = (replicate 26 0, 1)"
proof -
  have a: "np_median (map (\<lambda>x. \<bar>x - np_median (replicate 12 0 @ [26] @ replicate 13 0)\<bar>)
      (replicate 12 0 @ [26] @ replicate 13 0)) = 0"
    by code_simp
  have b: "remove_spikes (replicate 12 0 @ [26] @ replicate 13 0) None
     = (replicate 12 0 @ [26] @ replicate 13 0, 0)"
    by code_simp
  have c: "GEOseis_remove_spikes (replicate 12 0 @ [26] @ replicate 13 0) None 5 = (replicate 26 0, 1)"
    unfolding GEOseis_remove_spikes_def Let_def outlier_scores
    using outlier_replaced by simp
  from a b c show ?thesis by blast
qed


section \<open>Station search: failed stations and the fallback list\<close>

lemma set_py_slice: "set (py_slice xs a b) \<subseteq> set xs"
  unfolding py_slice_def Let_def
  using set_take_subset set_drop_subset by fast

lemma search_stations_keeps_failed:
  "failed_station_downloads (snd (search_stations srv ss quake a b t)) = failed_station_downloads ss"
  unfolding search_stations_def Let_def
  by (simp split: option.splits)

lemma search_stations_excluding_failed_result:
  assumes "search_stations_excluding_failed srv ss quake a b t = (out, ss')"
  shows "failed_set ss' = failed_set ss \<and> (\<forall>x \<in> set out. station_key x \<notin> failed_set ss)"
proof -
  obtain all_stations ss1 where s: "search_stations srv ss quake a b (t * 2) = (all_stations, ss1)"
    by (cases "search_stations srv ss quake a b (t * 2)")
  have f: "failed_set ss1 = failed_set ss"
    using search_stations_keeps_failed[of srv ss quake a b "t * 2"] s
    by (simp add: failed_set_def)
  from assms s have ss': "ss' = ss1"
    by (auto simp: search_stations_excluding_failed_def Let_def split: if_splits)
  from assms s have "set out \<subseteq> {x \<in> set all_stations. station_key x \<notin> failed_set ss1}"
    using set_py_slice[of "filter (\<lambda>s. station_key s \<notin> failed_set ss1) all_stations" 0 t]
    by (auto simp: search_stations_excluding_failed_def Let_def split: if_splits)
  with f ss' show ?thesis by auto
qed

lemma handle_failed_station_download_result:
  assumes "handle_failed_station_download srv ss s quake = (out, ss')"
  shows "failed_set ss' = insert (station_key s) (failed_set ss) \<and>
         (\<forall>x \<in> set out. station_key x \<notin> failed_set ss')"
proof -
  let ?ss1 = "ss\<lparr> failed_station_downloads := Some (insert (station_key s) (failed_set ss)) \<rparr>"
  have f1: "failed_set ?ss1 = insert (station_key s) (failed_set ss)"
    by (simp add: failed_set_def)
  from assms have "search_stations_excluding_failed srv ?ss1 quake
           (case search_min_dist ?ss1 of None \<Rightarrow> 1500 | Some v \<Rightarrow> v)
           (case search_max_dist ?ss1 of None \<Rightarrow> 3000 | Some v \<Rightarrow> v)
           (case search_target_stations ?ss1 of None \<Rightarrow> 3 | Some v \<Rightarrow> v) = (out, ss')"
    by (simp add: handle_failed_station_download_def Let_def)
  from search_stations_excluding_failed_result[OF this] f1 show ?thesis by simp
qed

lemma run_excludes_failed:
  assumes "key \<in> failed_set ss"
  shows "\<forall>out \<in> set (run calls ss). \<forall>x \<in> set out. station_key x \<noteq> key"
  using assms
proof (induction calls ss rule: run.induct)
  case (1 ss)
  then show ?case by simp
next
  case (2 srv s quake calls ss)
  obtain out ss1 where h: "handle_failed_station_download srv ss s quake = (out, ss1)"
    by (cases "handle_failed_station_download srv ss s quake")
  from handle_failed_station_download_result[OF h] "2.prems"
  have k: "key \<in> failed_set ss1" and o: "\<forall>x \<in> set out. station_key x \<noteq> key" by auto
  from "2.IH"[OF h[symmetric] k] o h show ?case by simp
next
  case (3 srv quake min_km max_km target calls ss)
  obtain out ss1 where h: "search_stations_excluding_failed srv ss quake min_km max_km target = (out, ss1)"
    by (cases "search_stations_excluding_failed srv ss quake min_km max_km target")
  from search_stations_excluding_failed_result[OF h] "3.prems"
  have k: "key \<in> failed_set ss1" and o: "\<forall>x \<in> set out. station_key x \<noteq> key" by auto
  from "3.IH"[OF h[symmetric] k] o h show ?case by simp
next
  case (4 srv quake min_km max_km target calls ss)
  have "failed_set (snd (search_stations srv ss quake min_km max_km target)) = failed_set ss"
    using search_stations_keeps_failed[of srv ss quake min_km max_km target]
    by (simp add: failed_set_def)
  with "4.prems" "4.IH" show ?case by simp
qed

text \<open>
  Claim C7. A station whose key is in the failed-station set is never in the list that
  \<open>search_stations_excluding_failed\<close> returns. And once
  \<open>handle_failed_station_download\<close> has marked a station, it is in none of the lists
  that this call and the later excluding searches of the session return, whatever the
  services answer: the searches never remove a key from the set. (The session's calls are
  the searches and the failure handling; the explicit reset
  \<^verbatim>\<open>clear_failed_stations\<close> empties the set and is not among them.)
\<close>

theorem failed_station_never_returned:
  "(station_key s \<in> failed_set ss \<longrightarrow>
      (\<forall>x \<in> set (fst (search_stations_excluding_failed srv ss quake min_km max_km target)).
         station_key x \<noteq> station_key s)) \<and>
   (\<forall>out \<in> set (run ((srv', Handle_failed s quake') # calls) ss').
      \<forall>x \<in> set out. station_key x \<noteq> station_key s)"
proof (rule conjI)
  show "station_key s \<in> failed_set ss \<longrightarrow>
      (\<forall>x \<in> set (fst (search_stations_excluding_failed srv ss quake min_km max_km target)).
         station_key x \<noteq> station_key s)"
  proof
    assume k: "station_key s \<in> failed_set ss"
    obtain out ss1 where
      h: "search_stations_excluding_failed srv ss quake min_km max_km target = (out, ss1)"
      by (cases "search_stations_excluding_failed srv ss quake min_km max_km target")
    from search_stations_excluding_failed_result[OF h] k h
    show "\<forall>x \<in> set (fst (search_stations_excluding_failed srv ss quake min_km max_km target)).
         station_key x \<noteq> station_key s"
      by auto
  qed
next
  obtain out ss1 where h: "handle_failed_station_download srv' ss' s quake' = (out, ss1)"
    by (cases "handle_failed_station_download srv' ss' s quake'")
  from handle_failed_station_download_result[OF h]
  have k: "station_key s \<in> failed_set ss1"
    and o: "\<forall>x \<in> set out. station_key x \<noteq> station_key s" by auto
  from run_excludes_failed[OF k, of calls] o h
  show "\<forall>out \<in> set (run ((srv', Handle_failed s quake') # calls) ss').
      \<forall>x \<in> set out. station_key x \<noteq> station_key s"
    by simp
qed

text \<open>
  Witness for C7: the plain search returns II.BFO and IU.KONO. With II.BFO in the
  failed set the excluding search returns IU.KONO only, and so do the failure handling
  for II.BFO and the excluding search after it.
\<close>

theorem failed_station_never_returned_witness:
  "fst (search_stations example_services fresh_session example_quake 1500 3000 6)
     = [station_BFO, station_KONO] \<and>
   station_key station_BFO
     \<in> failed_set (fresh_session\<lparr> failed_station_downloads := Some {''II.BFO''} \<rparr>) \<and>
   fst (search_stations_excluding_failed example_services
          (fresh_session\<lparr> failed_station_downloads := Some {''II.BFO''} \<rparr>)
          example_quake 1500 3000 3) = [station_KONO] \<and>
   list_all (\<lambda>x. station_key x \<noteq> station_key station_BFO)
     (fst (search_stations_excluding_failed example_services
             (fresh_session\<lparr> failed_station_downloads := Some {''II.BFO''} \<rparr>)
             example_quake 1500 3000 3)) \<and>
   run [(example_services, Handle_failed station_BFO example_quake),
        (example_services, Search_excluding example_quake 1500 3000 3)] fresh_session
     = [[station_KONO], [station_KONO]] \<and>
   list_all (list_all (\<lambda>x. station_key x \<noteq> station_key station_BFO))
     (run [(example_services, Handle_failed station_BFO example_quake),
           (example_services, Search_excluding example_quake 1500 3000 3)] fresh_session)"
proof -
  have a: "fst (search_stations example_services fresh_session example_quake 1500 3000 6)
     = [station_BFO, station_KONO]"
    by code_simp
  have k: "station_key station_BFO
     \<in> failed_set (fresh_session\<lparr> failed_station_downloads := Some {''II.BFO''} \<rparr>)"
    by (simp add: station_key_def station_BFO_def failed_set_def)
  have b: "fst (search_stations_excluding_failed example_services
          (fresh_session\<lparr> failed_station_downloads := Some {''II.BFO''} \<rparr>)
          example_quake 1500 3000 3) = [station_KONO]"
    by code_simp
  have c: "run [(example_services, Handle_failed station_BFO example_quake),
        (example_services, Search_excluding example_quake 1500 3000 3)] fresh_session
     = [[station_KONO], [station_KONO]]"
    by code_simp
  from failed_station_never_returned[where s = station_BFO
      and ss = "fresh_session\<lparr> failed_station_downloads := Some {''II.BFO''} \<rparr>"
      and srv = example_services and quake = example_quake
      and min_km = 1500 and max_km = 3000 and target = 3
      and srv' = example_services and quake' = example_quake
      and calls = "[(example_services, Search_excluding example_quake 1500 3000 3)]"
      and ss' = fresh_session] k
  have "list_all (\<lambda>x. station_key x \<noteq> station_key station_BFO)
     (fst (search_stations_excluding_failed example_services
             (fresh_session\<lparr> failed_station_downloads := Some {''II.BFO''} \<rparr>)
             example_quake 1500 3000 3))"
    and "list_all (list_all (\<lambda>x. station_key x \<noteq> station_key station_BFO))
     (run [(example_services, Handle_failed station_BFO example_quake),
           (example_services, Search_excluding example_quake 1500 3000 3)] fresh_session)"
    unfolding list_all_iff by blast+
  with a k b c show ?thesis by blast
qed

text \<open>
  The fallback list of data\_manager.py never yields a station, and a search whose
  inventory query raises returns the empty list when nothing is cached.
\<close>

lemma fallback_station_never_appends:
  "fallback_station srv lat lon min_km max_km sta_data \<noteq> Appended s"
  by (simp add: fallback_station_def Let_def split: prod.splits option.splits)

lemma fallback_station_list_is_empty:
  "fallback_station_list_optimized srv quake min_km max_km target = []"
proof -
  have "List.map_filter
          (\<lambda>sta_data.
             case fallback_station srv (eq_latitude quake) (eq_longitude quake)
                    min_km max_km sta_data of
               Appended s \<Rightarrow> Some s
             | _ \<Rightarrow> None) xs = []" for xs
    by (induction xs)
       (auto simp: List.map_filter_simps fallback_station_never_appends split: loop_outcome.splits)
  then show ?thesis
    by (simp add: fallback_station_list_optimized_def py_slice_def)
qed

lemma failed_inventory_query_gives_no_stations:
  assumes "station_results ss = None" "eq_time quake = Some t" "get_stations srv t = None"
  shows "fst (search_stations srv ss quake a b n) = []"
  using assms by (simp add: search_stations_def Let_def)

text \<open>
  Claim C8, evaluated on the code. The inventory query raises. \<open>search_stations\<close>
  returns the empty list from its exception handler and does not call the fallback. The
  fallback list itself has 7 stations, not 80 or more. For the event in Greece six of
  them are inside the range of 500 to 3000 km; each of these raises on the unbound name
  \<^verbatim>\<open>p_arrival\<close> and is skipped, so the fallback returns the empty list as well.
\<close>

theorem no_fallback_on_failed_inventory_query:
  "fst (search_stations offline_services fresh_session example_quake 500 3000 3) = [] \<and>
   map (fallback_station offline_services (eq_latitude example_quake) (eq_longitude example_quake)
          500 3000) analysis_ready_stations
     = [Not_in_range, Raised, Raised, Raised, Raised, Raised, Raised] \<and>
   fallback_station_list_optimized offline_services example_quake 500 3000 3 = [] \<and>
   length analysis_ready_stations = 7"
  by code_simp

end
